theory Spec2Isabelle
  imports Complex_Main "HOL-Library.Char_ord" "HOL-Library.List_Lexorder"
begin

section \<open>Python values and library functions used by the scene pipeline\<close>

text \<open>
  Strings are byte strings (\<open>char list\<close>); Python's \<open>str\<close> is modelled on its
  ASCII fragment, where the classes \<open>[0-9]\<close> and \<open>\d\<close> coincide and string order is
  the order of the character codes.  Exceptions are values of \<open>pyerr\<close>; a function
  that can raise returns \<open>pyerr + 'a\<close> with \<open>Inl\<close> the exception.
\<close>

datatype pyerr = TypeError | ValueError | IndexError | KeyError | AttributeError
  | UnboundLocalError | EngineError

text \<open>A dynamically typed value where the source mixes \<open>None\<close>, integers and strings.\<close>

datatype pyval = PNone | PInt int | PStr string

subsection \<open>Character classes and fixed-width regular expressions\<close>

text \<open>
  Every regular expression of the sources is a sequence of single-character classes
  (\<open>_[0-9]{15}_\<close>, \<open>_R[0-9]{1}C[0-9]{1}\<close>, \<open>_PHR[\d][A|B]_\<close>, \<open>_SPOT[\d]_\<close>), and
  those of \<open>datetime.strptime\<close> are sequences of groups whose alternatives are such
  sequences.  A pattern is a list of character predicates.
\<close>

type_synonym pat = "(char \<Rightarrow> bool) list"

definition lit :: "char \<Rightarrow> char \<Rightarrow> bool" where
  "lit a c = (c = a)"

definition rng :: "char \<Rightarrow> char \<Rightarrow> char \<Rightarrow> bool" where
  "rng lo hi c = ((of_char lo :: nat) \<le> of_char c \<and> (of_char c :: nat) \<le> of_char hi)"

definition isdigit :: "char \<Rightarrow> bool" where
  "isdigit c = rng CHR ''0'' CHR ''9'' c"

definition one_of :: "string \<Rightarrow> char \<Rightarrow> bool" where
  "one_of cs c = (c \<in> set cs)"

fun match_here :: "pat \<Rightarrow> string \<Rightarrow> bool" where
  "match_here [] s = True"
| "match_here (p # ps) [] = False"
| "match_here (p # ps) (c # cs) = (p c \<and> match_here ps cs)"

text \<open>\<open>re.search(p, s)\<close>: the text of the leftmost match, \<open>None\<close> without one.\<close>

fun re_search :: "pat \<Rightarrow> string \<Rightarrow> string option" where
  "re_search p [] = (if match_here p [] then Some [] else None)"
| "re_search p (c # cs) =
     (if match_here p (c # cs) then Some (take (length p) (c # cs)) else re_search p cs)"

text \<open>
  A regular expression that is a sequence of groups, each a list of alternatives tried
  in order with backtracking: \<open>match_groups\<close> is \<open>re.match\<close>, returning the text of
  each group of the first successful path.
\<close>

fun match_groups :: "pat list list \<Rightarrow> string \<Rightarrow> string list option"
  and try_alts :: "pat list \<Rightarrow> pat list list \<Rightarrow> string \<Rightarrow> string list option" where
  "match_groups [] s = Some []"
| "match_groups (alts # gs) s = try_alts alts gs s"
| "try_alts [] gs s = None"
| "try_alts (p # ps) gs s =
     (if match_here p s
      then (case match_groups gs (drop (length p) s) of
              Some r \<Rightarrow> Some (take (length p) s # r)
            | None \<Rightarrow> try_alts ps gs s)
      else try_alts ps gs s)"

subsection \<open>String methods\<close>

text \<open>\<open>s.replace(old, new)\<close> for a non-empty \<open>old\<close> (every call site passes a literal).\<close>

function replace :: "string \<Rightarrow> string \<Rightarrow> string \<Rightarrow> string" where
  "replace old new [] = []"
| "replace old new (c # cs) =
     (if old \<noteq> [] \<and> take (length old) (c # cs) = old
      then new @ replace old new (drop (length old) (c # cs))
      else c # replace old new cs)"
  by pat_completeness auto
termination
  by (relation "measure (\<lambda>(old, new, s). length s)") (auto simp: Suc_le_eq)

text \<open>\<open>s.strip('_')\<close>.\<close>

definition strip_us :: "string \<Rightarrow> string" where
  "strip_us s = rev (dropWhile (\<lambda>c. c = CHR ''_'') (rev (dropWhile (\<lambda>c. c = CHR ''_'') s)))"

text \<open>\<open>s.upper()\<close> on ASCII.\<close>

definition upper_char :: "char \<Rightarrow> char" where
  "upper_char c =
     (case map_of (zip ''abcdefghijklmnopqrstuvwxyz'' ''ABCDEFGHIJKLMNOPQRSTUVWXYZ'') c of
        Some u \<Rightarrow> u
      | None \<Rightarrow> c)"

definition upper :: "string \<Rightarrow> string" where
  "upper s = map upper_char s"

text \<open>\<open>re.findall(r'\d+', s)\<close>: the maximal runs of digits, left to right.\<close>

function findall_digits :: "string \<Rightarrow> string list" where
  "findall_digits [] = []"
| "findall_digits (c # cs) =
     (if isdigit c then takeWhile isdigit (c # cs) # findall_digits (dropWhile isdigit cs)
      else findall_digits cs)"
  by pat_completeness auto
termination
  by (relation "measure length") (auto simp: length_dropWhile_le less_Suc_eq_le)

text \<open>\<open>int(s)\<close> on a run of decimal digits (the only arguments the sources pass).\<close>

definition digit_val :: "char \<Rightarrow> nat" where
  "digit_val c = of_char c - 48"

definition int_of_digits :: "string \<Rightarrow> nat" where
  "int_of_digits s = foldl (\<lambda>a c. 10 * a + digit_val c) 0 s"

definition digit_char :: "nat \<Rightarrow> char" where
  "digit_char n = ''0123456789'' ! n"

text \<open>Zero-padded decimal output of \<open>strftime\<close>: \<open>%m\<close>, \<open>%d\<close>, \<open>%H\<close>, \<open>%M\<close>, \<open>%S\<close> and \<open>%Y\<close>.\<close>

definition pad2 :: "nat \<Rightarrow> string" where
  "pad2 n = [digit_char (n div 10 mod 10), digit_char (n mod 10)]"

definition pad4 :: "nat \<Rightarrow> string" where
  "pad4 n = [digit_char (n div 1000 mod 10), digit_char (n div 100 mod 10),
             digit_char (n div 10 mod 10), digit_char (n mod 10)]"

subsection \<open>os.path (POSIX flavour, separator \<open>/\<close>)\<close>

text \<open>\<open>p.rfind('/') + 1\<close>: the length of the part up to and including the last slash.\<close>

definition after_last_sep :: "string \<Rightarrow> nat" where
  "after_last_sep p = length p - length (takeWhile (\<lambda>c. c \<noteq> CHR ''/'') (rev p))"

definition basename :: "string \<Rightarrow> string" where
  "basename p = drop (after_last_sep p) p"

definition rstrip_sep :: "string \<Rightarrow> string" where
  "rstrip_sep s = rev (dropWhile (\<lambda>c. c = CHR ''/'') (rev s))"

definition dirname :: "string \<Rightarrow> string" where
  "dirname p =
     (let head = take (after_last_sep p) p
      in if head \<noteq> [] \<and> head \<noteq> replicate (length head) CHR ''/'' then rstrip_sep head
         else head)"

text \<open>\<open>os.path.join(a, b)\<close> on two strings.\<close>

definition join :: "string \<Rightarrow> string \<Rightarrow> string" where
  "join a b =
     (if b \<noteq> [] \<and> hd b = CHR ''/'' then b
      else if a = [] \<or> last a = CHR ''/'' then a @ b
      else a @ ''/'' @ b)"

text \<open>
  \<open>os.path.join\<close> on dynamically typed arguments: \<open>os.fspath\<close> raises \<open>TypeError\<close> on
  anything that is not a string.
\<close>

fun os_path_join :: "pyval \<Rightarrow> pyval \<Rightarrow> pyerr + string" where
  "os_path_join (PStr a) (PStr b) = Inr (join a b)"
| "os_path_join a b = Inl TypeError"

text \<open>\<open>os.path.basename\<close> on a value that may be \<open>None\<close>.\<close>

fun basename_opt :: "string option \<Rightarrow> pyerr + string" where
  "basename_opt None = Inl TypeError"
| "basename_opt (Some p) = Inr (basename p)"

text \<open>
  \<open>os.path.splitext(p)[1]\<close>: the extension starts at the last dot of the last path
  component, unless that component has only dots before it.
\<close>

definition splitext_ext :: "string \<Rightarrow> string" where
  "splitext_ext p =
     (let b = basename p;
          stem = rev (drop 1 (dropWhile (\<lambda>c. c \<noteq> CHR ''.'') (rev b)))
      in if CHR ''.'' \<in> set b \<and> (\<exists>c \<in> set stem. c \<noteq> CHR ''.'')
         then drop (length stem) b else [])"

subsection \<open>datetime\<close>

record datetime =
  year :: nat
  month :: nat
  day :: nat
  hour :: nat
  minute :: nat
  second :: nat
  microsecond :: nat

definition is_leap :: "nat \<Rightarrow> bool" where
  "is_leap y = (y mod 4 = 0 \<and> (y mod 100 \<noteq> 0 \<or> y mod 400 = 0))"

definition days_in_month :: "nat \<Rightarrow> nat \<Rightarrow> nat" where
  "days_in_month y m =
     (if m = 2 then (if is_leap y then 29 else 28)
      else if m = 4 \<or> m = 6 \<or> m = 9 \<or> m = 11 then 30 else 31)"

text \<open>
  The regular expression \<open>_strptime\<close> compiles for the format \<open>%Y%m%d%H%M%S%f\<close>:
  \<open>(\d\d\d\d)(1[0-2]|0[1-9]|[1-9])(3[0-1]|[1-2]\d|0[1-9]|[1-9]| [1-9])\<close>
  \<open>(2[0-3]|[0-1]\d|\d)([0-5]\d|\d)(6[0-1]|[0-5]\d|\d)([0-9]{1,6})\<close>.
  The greedy \<open>{1,6}\<close> tries six digits first, then five, down to one.
\<close>

definition re_Y :: "pat list" where
  "re_Y = [[isdigit, isdigit, isdigit, isdigit]]"

definition re_m :: "pat list" where
  "re_m = [[lit CHR ''1'', rng CHR ''0'' CHR ''2''], [lit CHR ''0'', rng CHR ''1'' CHR ''9''],
           [rng CHR ''1'' CHR ''9'']]"

definition re_d :: "pat list" where
  "re_d = [[lit CHR ''3'', rng CHR ''0'' CHR ''1''], [rng CHR ''1'' CHR ''2'', isdigit],
           [lit CHR ''0'', rng CHR ''1'' CHR ''9''], [rng CHR ''1'' CHR ''9''],
           [lit CHR '' '', rng CHR ''1'' CHR ''9'']]"

definition re_H :: "pat list" where
  "re_H = [[lit CHR ''2'', rng CHR ''0'' CHR ''3''], [rng CHR ''0'' CHR ''1'', isdigit], [isdigit]]"

definition re_M :: "pat list" where
  "re_M = [[rng CHR ''0'' CHR ''5'', isdigit], [isdigit]]"

definition re_S :: "pat list" where
  "re_S = [[lit CHR ''6'', rng CHR ''0'' CHR ''1''], [rng CHR ''0'' CHR ''5'', isdigit], [isdigit]]"

definition re_f :: "pat list" where
  "re_f = [[isdigit, isdigit, isdigit, isdigit, isdigit, isdigit],
           [isdigit, isdigit, isdigit, isdigit, isdigit],
           [isdigit, isdigit, isdigit, isdigit], [isdigit, isdigit, isdigit],
           [isdigit, isdigit], [isdigit]]"

definition strptime_regex :: "pat list list" where
  "strptime_regex = [re_Y, re_m, re_d, re_H, re_M, re_S, re_f]"

text \<open>
  \<open>datetime.strptime(value, '%Y%m%d%H%M%S%f')\<close>: \<open>ValueError\<close> when the expression
  does not match, when it matches a proper prefix only (unconverted data remains), when
  the date does not exist (year 0, day beyond the month) and when the second is 60 or 61.
  The fraction (one to six digits) is padded with zeros on the right to six digits.
\<close>

definition strptime :: "string \<Rightarrow> pyerr + datetime" where
  "strptime v =
     (case match_groups strptime_regex v of
        Some [Y, m, d, H, M, S, f] \<Rightarrow>
          if length (concat [Y, m, d, H, M, S, f]) \<noteq> length v then Inl ValueError
          else if int_of_digits Y < 1 then Inl ValueError
          else if days_in_month (int_of_digits Y) (int_of_digits m) < int_of_digits d
            then Inl ValueError
          else if 59 < int_of_digits S then Inl ValueError
          else Inr \<lparr>year = int_of_digits Y, month = int_of_digits m, day = int_of_digits d,
                    hour = int_of_digits H, minute = int_of_digits M,
                    second = int_of_digits S,
                    microsecond = int_of_digits (take 6 (f @ ''000000''))\<rparr>
      | _ \<Rightarrow> Inl ValueError)"

text \<open>Decimal output without padding (\<open>%Y\<close> of the C library for a year below 1000).\<close>

fun dec :: "nat \<Rightarrow> string" where
  "dec n = (if n < 10 then [digit_char n] else dec (n div 10) @ [digit_char (n mod 10)])"

text \<open>\<open>dt.strftime('%Y%m%d_%H%M%S')\<close>: the microsecond is not printed.\<close>

definition strftime :: "datetime \<Rightarrow> string" where
  "strftime dt = dec (year dt) @ pad2 (month dt) @ pad2 (day dt) @ ''_'' @
                 pad2 (hour dt) @ pad2 (minute dt) @ pad2 (second dt)"

section \<open>The file system, the external collaborators and the run state\<close>

text \<open>
  The file system is the set of paths for which \<open>os.path.exists\<close> holds.  The
  applications of the raster-processing engine are recorded, in order, with the
  parameters set at the time of \<open>ExecuteAndWriteOutput\<close>, and so are the glob searches.
\<close>

datatype pvalue = VStr string | VList "string list" | VInt int | VFloat real | VPixelType string

datatype call = Call string "(string \<times> pvalue) list"

datatype event = Exec call | Glob string

record world =
  files :: "string set"
  trace :: "event list"

text \<open>
  External collaborators are parameters of the model: the archive extractor
  \<open>ps.extractZip\<close> (exit code and the file system it leaves), \<open>glob.glob\<close>, and the
  engine's \<open>ExecuteAndWriteOutput\<close> (an exception or none, and the file system it
  leaves).  Nothing is assumed about them.
\<close>

record env =
  extractZip :: "string \<Rightarrow> string \<Rightarrow> string set \<Rightarrow> int \<times> string set"
  glob_glob :: "string \<Rightarrow> string set \<Rightarrow> string list"
  engine :: "call \<Rightarrow> string set \<Rightarrow> pyerr option \<times> string set"

type_synonym 'a run = "world \<Rightarrow> (pyerr + 'a) \<times> world"

text \<open>Sequencing: an exception of the first computation ends the run, keeping its effects.\<close>

definition then_do :: "'a run \<Rightarrow> ('a \<Rightarrow> 'b run) \<Rightarrow> 'b run" where
  "then_do m f w = (case m w of (Inl x, w') \<Rightarrow> (Inl x, w') | (Inr a, w') \<Rightarrow> f a w')"

definition return :: "'a \<Rightarrow> 'a run" where
  "return a w = (Inr a, w)"

definition raise :: "pyerr \<Rightarrow> 'a run" where
  "raise x w = (Inl x, w)"

definition os_path_exists :: "string \<Rightarrow> world \<Rightarrow> bool" where
  "os_path_exists p w = (p \<in> files w)"

text \<open>\<open>if not os.path.exists(p): os.makedirs(p)\<close>.\<close>

definition ensure_dir :: "string \<Rightarrow> world \<Rightarrow> world" where
  "ensure_dir p w = (if os_path_exists p w then w else w\<lparr>files := insert p (files w)\<rparr>)"

text \<open>\<open>app.ExecuteAndWriteOutput()\<close> with the parameters \<open>c\<close>.\<close>

definition ExecuteAndWriteOutput :: "env \<Rightarrow> call \<Rightarrow> unit run" where
  "ExecuteAndWriteOutput e c w =
     (case engine e c (files w) of
        (r, fs) \<Rightarrow> ((case r of None \<Rightarrow> Inr () | Some x \<Rightarrow> Inl x),
                    \<lparr>files = fs, trace = trace w @ [Exec c]\<rparr>))"

section \<open>Dataset (dataset.py)\<close>

text \<open>
  Modelled from the spec: the region-of-interest resolver \<open>BBox.getImageRoi\<close> of
  \<open>src.utility.bbox\<close>, which is not among the sources: given an image it returns the
  four corner coordinates in the image's coordinate space, or \<open>None\<close> when the region
  does not overlap the image.  It is a parameter; it may also raise.
\<close>

type_synonym coords = "real \<times> real \<times> real \<times> real"

type_synonym bbox = "string option \<Rightarrow> pyerr + coords option"

text \<open>The attributes of a \<open>Dataset\<close> object (\<open>self._scene\<close>, \<open>self._tle\<close>, ...).\<close>

record dataset =
  self_scene :: string
  self_datetime :: string
  self_tle :: pyval
  self_platform :: "string option"
  self_norad_id :: "(string \<times> int) list"
  self_dem_path :: "string option"
  self_geoid_pathname :: "string option"
  self_epsg :: "string option"
  self_pan_method :: "string option"
  self_roi :: "bbox option"
  self_ram :: nat
  self_log :: string

text \<open>The keyword arguments of the constructor; \<open>None\<close> is an argument not given.\<close>

record kwargs =
  kw_dem_path :: "string option"
  kw_geoid_pathname :: "string option"
  kw_epsg :: "string option"
  kw_pan_method :: "string option"
  kw_roi :: "bbox option"
  kw_ram :: "nat option"
  kw_log :: "string option"

text \<open>\<open>self._image_ids\<close>, assigned once in the constructor and never changed.\<close>

definition image_ids :: "string list" where
  "image_ids = [''MS'', ''P'']"

text \<open>The pattern \<open>_[0-9]{15}_\<close>.\<close>

definition datetime_exp :: pat where
  "datetime_exp = [lit CHR ''_'', isdigit, isdigit, isdigit, isdigit, isdigit, isdigit, isdigit,
                   isdigit, isdigit, isdigit, isdigit, isdigit, isdigit, isdigit, isdigit,
                   lit CHR ''_'']"

definition getDateTime :: "string \<Rightarrow> pyerr + datetime option" where
  "getDateTime scene =
     (case re_search datetime_exp (basename scene) of
        None \<Rightarrow> Inr None
      | Some m \<Rightarrow> (case strptime (strip_us m) of Inl x \<Rightarrow> Inl x | Inr dt \<Rightarrow> Inr (Some dt)))"

text \<open>\<open>self.getDateTime(scene).strftime(...)\<close>: \<open>None\<close> has no \<open>strftime\<close>.\<close>

definition getDateTimeString :: "string \<Rightarrow> pyerr + string" where
  "getDateTimeString scene =
     (case getDateTime scene of
        Inl x \<Rightarrow> Inl x
      | Inr None \<Rightarrow> Inl AttributeError
      | Inr (Some dt) \<Rightarrow> Inr (strftime dt))"

definition getPlatform :: "string \<Rightarrow> pat \<Rightarrow> string option" where
  "getPlatform scene regexp = map_option strip_us (re_search regexp (basename scene))"

definition getSubPath :: "dataset \<Rightarrow> pyerr + string" where
  "getSubPath d = os_path_join (self_tle d) (PStr (self_datetime d))"

text \<open>The pattern \<open>_R[0-9]{1}C[0-9]{1}\<close>.\<close>

definition tile_exp :: pat where
  "tile_exp = [lit CHR ''_'', lit CHR ''R'', isdigit, lit CHR ''C'', isdigit]"

definition getTile :: "string \<Rightarrow> string option" where
  "getTile pathname =
     (if upper (splitext_ext pathname) = ''.TIF''
      then map_option strip_us (re_search tile_exp (basename pathname))
      else None)"

definition getTileCoordinates :: "string \<Rightarrow> string list" where
  "getTileCoordinates pathname =
     (case getTile pathname of None \<Rightarrow> [] | Some tile \<Rightarrow> findall_digits tile)"

text \<open>
  The constructor.  The default log directory is \<open>D:\data\log\<close>; opening the log for
  writing creates it.  \<open>BBox(coords)\<close> is taken as built by the caller.
\<close>

definition default_log_path :: string where
  "default_log_path = ''D:'' @ [CHR 0x5C] @ ''data'' @ [CHR 0x5C] @ ''log''"

definition Dataset_init :: "string \<Rightarrow> kwargs \<Rightarrow> dataset run" where
  "Dataset_init scene kw w =
     (case getDateTimeString scene of
        Inl x \<Rightarrow> (Inl x, w)
      | Inr dts \<Rightarrow>
          (let log_path = (case kw_log kw of None \<Rightarrow> default_log_path | Some p \<Rightarrow> p);
               w1 = ensure_dir log_path w;
               log_pathname = join log_path (replace ''.zip'' ''.log'' (basename scene));
               w2 = w1\<lparr>files := insert log_pathname (files w1)\<rparr>
           in (Inr \<lparr>self_scene = scene, self_datetime = dts, self_tle = PNone,
                     self_platform = None, self_norad_id = [],
                     self_dem_path = kw_dem_path kw,
                     self_geoid_pathname = kw_geoid_pathname kw,
                     self_epsg = kw_epsg kw, self_pan_method = kw_pan_method kw,
                     self_roi = kw_roi kw,
                     self_ram = (case kw_ram kw of None \<Rightarrow> 4096 | Some r \<Rightarrow> r),
                     self_log = log_pathname\<rparr>, w2)))"

text \<open>\<open>self._norad_id[self._platform]\<close>: \<open>KeyError\<close> for a missing key, \<open>None\<close> included.\<close>

definition norad_lookup :: "(string \<times> int) list \<Rightarrow> string option \<Rightarrow> pyerr + int" where
  "norad_lookup reg platform =
     (case platform of
        None \<Rightarrow> Inl KeyError
      | Some p \<Rightarrow> (case map_of reg p of None \<Rightarrow> Inl KeyError | Some t \<Rightarrow> Inr t))"

definition profile_init ::
  "(string \<times> int) list \<Rightarrow> pat \<Rightarrow> string \<Rightarrow> kwargs \<Rightarrow> dataset run" where
  "profile_init reg regexp scene kw =
     then_do (Dataset_init scene kw) (\<lambda>d.
       let platform = getPlatform scene regexp
       in case norad_lookup reg platform of
            Inl x \<Rightarrow> raise x
          | Inr t \<Rightarrow> return (d\<lparr>self_norad_id := reg, self_platform := platform,
                                 self_tle := PInt t\<rparr>))"

subsection \<open>Band discovery and elevation tiles\<close>

text \<open>The glob pattern; \<open>format\<close> prints a platform that is \<open>None\<close> as \<open>None\<close>.\<close>

definition image_pattern :: "string option \<Rightarrow> string \<Rightarrow> string" where
  "image_pattern platform i =
     (let pf = (case platform of None \<Rightarrow> ''None'' | Some p \<Rightarrow> p)
      in ''**/IMG_'' @ pf @ ''_'' @ i @ ''_*/IMG_'' @ pf @ ''_'' @ i @ ''_*.TIF'')"

fun getImageLists_loop ::
  "dataset \<Rightarrow> env \<Rightarrow> string \<Rightarrow> string list \<Rightarrow> (string \<rightharpoonup> string list) \<Rightarrow> world
   \<Rightarrow> (string \<rightharpoonup> string list) \<times> world" where
  "getImageLists_loop d e path [] images w = (images, w)"
| "getImageLists_loop d e path (i # ids) images w =
     (let image_path = join path (image_pattern (self_platform d) i)
      in getImageLists_loop d e path ids
           (images(i \<mapsto> glob_glob e image_path (files w)))
           (w\<lparr>trace := trace w @ [Glob image_path]\<rparr>))"

definition getImageLists :: "dataset \<Rightarrow> env \<Rightarrow> string \<Rightarrow> (string \<rightharpoonup> string list) run" where
  "getImageLists d e path w =
     (case getImageLists_loop d e path image_ids Map.empty w of
        (images, w') \<Rightarrow> (Inr images, w'))"

definition srtm_call :: "string list \<Rightarrow> string \<Rightarrow> call" where
  "srtm_call images dem = Call ''DownloadSRTMTiles'' [(''il'', VList images), (''tiledir'', VStr dem)]"

definition getSrtmTiles :: "dataset \<Rightarrow> env \<Rightarrow> string list \<Rightarrow> unit run" where
  "getSrtmTiles d e images =
     (case self_dem_path d of
        Some dem \<Rightarrow> ExecuteAndWriteOutput e (srtm_call images dem)
      | None \<Rightarrow> return ())"

subsection \<open>Calibration\<close>

definition cal_pathname :: "string \<Rightarrow> string \<Rightarrow> string" where
  "cal_pathname out_path img = join out_path (replace ''.TIF'' ''_CAL.TIF'' (basename img))"

definition cal_call :: "string \<Rightarrow> string \<Rightarrow> string \<Rightarrow> bool \<Rightarrow> call" where
  "cal_call img out_pathname level milli =
     Call ''OpticalCalibration''
       ([(''in'', VStr img), (''level'', VStr level),
         (''out'', VStr (out_pathname @ ''?&gdal:co:TILED=YES'')),
         (''milli'', VStr (if milli then ''True'' else ''False''))] @
        (if milli then [(''out'', VPixelType ''uint16'')] else []))"

fun getCalibratedImages_loop ::
  "dataset \<Rightarrow> env \<Rightarrow> string list \<Rightarrow> string \<Rightarrow> string \<Rightarrow> bool \<Rightarrow> string list
   \<Rightarrow> string list run" where
  "getCalibratedImages_loop d e [] out_path level milli out_images w = (Inr out_images, w)"
| "getCalibratedImages_loop d e (img # images) out_path level milli out_images w =
     (let out_pathname = cal_pathname out_path img
      in if os_path_exists out_pathname w
         then getCalibratedImages_loop d e images out_path level milli
                (out_images @ [out_pathname]) w
         else (case ExecuteAndWriteOutput e (cal_call img out_pathname level milli)
                      (ensure_dir out_path w) of
                 (Inl x, w') \<Rightarrow> (Inl x, w')
               | (Inr _, w') \<Rightarrow>
                   getCalibratedImages_loop d e images out_path level milli
                     (out_images @ [out_pathname]) w'))"

definition getCalibratedImages ::
  "dataset \<Rightarrow> env \<Rightarrow> string list \<Rightarrow> string \<Rightarrow> string \<Rightarrow> bool \<Rightarrow> string list run" where
  "getCalibratedImages d e images out_path level milli =
     getCalibratedImages_loop d e images out_path level milli []"

subsection \<open>Tile fusion\<close>

text \<open>
  The loop over the tiles: \<open>coords[0]\<close> and \<open>coords[1]\<close> raise \<open>IndexError\<close> when the
  name has no tile code.
\<close>

fun grid_extent :: "string list \<Rightarrow> nat \<Rightarrow> nat \<Rightarrow> pyerr + nat \<times> nat" where
  "grid_extent [] nrows ncols = Inr (nrows, ncols)"
| "grid_extent (img # images) nrows ncols =
     (case getTileCoordinates img of
        r # c # rest \<Rightarrow>
          grid_extent images (max nrows (int_of_digits r)) (max ncols (int_of_digits c))
      | _ \<Rightarrow> Inl IndexError)"

definition mosaic_pathname :: "string \<Rightarrow> string \<Rightarrow> string" where
  "mosaic_pathname out_path img = join out_path (replace ''_R1C1'' ''_MOSAIC'' (basename img))"

definition fusion_call :: "string list \<Rightarrow> string \<Rightarrow> nat \<Rightarrow> nat \<Rightarrow> call" where
  "fusion_call images out_pathname ncols nrows =
     Call ''TileFusion''
       [(''il'', VList images), (''out'', VStr (out_pathname @ ''?&gdal:co:TILED=YES'')),
        (''cols'', VInt (int ncols)), (''rows'', VInt (int nrows))]"

definition getTileFusionImages ::
  "dataset \<Rightarrow> env \<Rightarrow> string list \<Rightarrow> string \<Rightarrow> string option run" where
  "getTileFusionImages d e images out_path w =
     (case grid_extent images 0 0 of
        Inl x \<Rightarrow> (Inl x, w)
      | Inr (nrows, ncols) \<Rightarrow>
          if length images = nrows * ncols then
            if length images > 1 then
              (let sorted = sort images;
                   out_pathname = mosaic_pathname out_path (hd sorted)
               in if os_path_exists out_pathname w then (Inr (Some out_pathname), w)
                  else then_do
                         (ExecuteAndWriteOutput e (fusion_call sorted out_pathname ncols nrows))
                         (\<lambda>u. return (Some out_pathname)) (ensure_dir out_path w))
            else (case images of
                    [] \<Rightarrow> (Inl IndexError, w)
                  | img # rest \<Rightarrow> (Inr (Some img), w))
          else (Inr None, w))"

subsection \<open>Region of interest\<close>

definition roi_pathname :: "string \<Rightarrow> string \<Rightarrow> string" where
  "roi_pathname out_path img = join out_path (replace ''.TIF'' ''_ROI.TIF'' (basename img))"

definition roi_call :: "string \<Rightarrow> string \<Rightarrow> coords \<Rightarrow> call" where
  "roi_call img out_pathname cs =
     (case cs of (ulx, uly, lrx, lry) \<Rightarrow>
        Call ''ExtractROI''
          [(''in'', VStr img), (''out'', VStr (out_pathname @ ''?&gdal:co:TILED=YES'')),
           (''mode'', VStr ''extent''), (''mode.extent.ulx'', VFloat ulx),
           (''mode.extent.uly'', VFloat uly), (''mode.extent.lrx'', VFloat lrx),
           (''mode.extent.lry'', VFloat lry)])"

text \<open>
  \<open>self._roi\<close> is \<open>None\<close> without a region (\<open>AttributeError\<close> on the method call); the
  image is \<open>None\<close> when fusion gave no mosaic (\<open>TypeError\<close> in \<open>os.path.basename\<close>).
\<close>

definition getRoiImage :: "dataset \<Rightarrow> env \<Rightarrow> string option \<Rightarrow> string \<Rightarrow> string option run" where
  "getRoiImage d e img out_path w =
     (case self_roi d of
        None \<Rightarrow> (Inl AttributeError, w)
      | Some bb \<Rightarrow>
          (case bb img of
             Inl x \<Rightarrow> (Inl x, w)
           | Inr None \<Rightarrow> (Inr None, w)
           | Inr (Some cs) \<Rightarrow>
               (case img of
                  None \<Rightarrow> (Inl TypeError, w)
                | Some im \<Rightarrow>
                    (let out_pathname = roi_pathname out_path im
                     in if os_path_exists out_pathname w then (Inr (Some out_pathname), w)
                        else then_do (ExecuteAndWriteOutput e (roi_call im out_pathname cs))
                               (\<lambda>u. return (Some out_pathname)) (ensure_dir out_path w)))))"

subsection \<open>Bundle, superimposition and pansharpening\<close>

text \<open>\<open>images[k]\<close> where a string is needed: \<open>KeyError\<close> without the key, \<open>TypeError\<close> on \<open>None\<close>.\<close>

definition image_of :: "(string \<rightharpoonup> string option) \<Rightarrow> string \<Rightarrow> pyerr + string" where
  "image_of images k =
     (case images k of None \<Rightarrow> Inl KeyError | Some None \<Rightarrow> Inl TypeError | Some (Some p) \<Rightarrow> Inr p)"

definition elev_params :: "dataset \<Rightarrow> (string \<times> pvalue) list" where
  "elev_params d =
     (case (self_dem_path d, self_geoid_pathname d) of
        (Some dem, Some geoid) \<Rightarrow> [(''elev.dem'', VStr dem), (''elev.geoid'', VStr geoid)]
      | _ \<Rightarrow> [])"

definition method_params :: "dataset \<Rightarrow> (string \<times> pvalue) list" where
  "method_params d =
     (case self_pan_method d of Some m \<Rightarrow> [(''method'', VStr m)] | None \<Rightarrow> [])"




definition super_pathname :: "string \<Rightarrow> string \<Rightarrow> string" where
  "super_pathname out_path ms = join out_path (replace ''_MS_'' ''_MS_SUPER_'' (basename ms))"

definition super_call :: "dataset \<Rightarrow> string \<Rightarrow> string \<Rightarrow> string \<Rightarrow> call" where
  "super_call d p ms out_pathname =
     Call ''Superimpose''
       ([(''inr'', VStr p), (''inm'', VStr ms),
         (''out'', VStr (out_pathname @ ''?&gdal:co:TILED=YES''))] @ elev_params d)"

definition getSuperimposedImage ::
  "dataset \<Rightarrow> env \<Rightarrow> (string \<rightharpoonup> string option) \<Rightarrow> string \<Rightarrow> string run" where
  "getSuperimposedImage d e images out_path w =
     (case image_of images ''MS'' of
        Inl x \<Rightarrow> (Inl x, w)
      | Inr ms \<Rightarrow>
          (let out_pathname = super_pathname out_path ms
           in if os_path_exists out_pathname w then (Inr out_pathname, w)
              else (case image_of images ''P'' of
                      Inl x \<Rightarrow> (Inl x, ensure_dir out_path w)
                    | Inr p \<Rightarrow>
                        then_do (ExecuteAndWriteOutput e (super_call d p ms out_pathname))
                          (\<lambda>u. return out_pathname) (ensure_dir out_path w))))"

definition pan_pathname :: "string \<Rightarrow> string \<Rightarrow> string" where
  "pan_pathname out_path ms = join out_path (replace ''_MS_SUPER_'' ''_PAN_'' (basename ms))"

definition pan_call :: "dataset \<Rightarrow> string \<Rightarrow> string \<Rightarrow> string \<Rightarrow> call" where
  "pan_call d p ms out_pathname =
     Call ''Pansharpening''
       ([(''inp'', VStr p), (''inxs'', VStr ms),
         (''out'', VStr (out_pathname @
            ''?&gdal:co:TILED=YES&gdal:co:COMPRESS=DEFLATE&gdal:co:BIGTIFF=YES''))] @
        method_params d)"

definition getPansharpenImage ::
  "dataset \<Rightarrow> env \<Rightarrow> (string \<rightharpoonup> string option) \<Rightarrow> string \<Rightarrow> string run" where
  "getPansharpenImage d e images out_path w =
     (case image_of images ''MS'' of
        Inl x \<Rightarrow> (Inl x, w)
      | Inr ms \<Rightarrow>
          (let out_pathname = pan_pathname out_path ms
           in if os_path_exists out_pathname w then (Inr out_pathname, w)
              else (case image_of images ''P'' of
                      Inl x \<Rightarrow> (Inl x, ensure_dir out_path w)
                    | Inr p \<Rightarrow>
                        then_do (ExecuteAndWriteOutput e (pan_call d p ms out_pathname))
                          (\<lambda>u. return out_pathname) (ensure_dir out_path w))))"

section \<open>The platform profiles (pleiades.py, spot.py)\<close>

text \<open>The registries \<open>self._norad_id\<close> and the platform patterns of the two constructors.\<close>

definition pleiades_norad_id :: "(string \<times> int) list" where
  "pleiades_norad_id = [(''PHR1A'', 38012), (''PHR1B'', 39019)]"

text \<open>\<open>_PHR[\d][A|B]_\<close>: the class \<open>[A|B]\<close> holds the three characters \<open>A\<close>, \<open>|\<close> and \<open>B\<close>.\<close>

definition pleiades_exp :: pat where
  "pleiades_exp = [lit CHR ''_'', lit CHR ''P'', lit CHR ''H'', lit CHR ''R'', isdigit,
                   one_of ''A|B'', lit CHR ''_'']"

definition Pleiades_init :: "string \<Rightarrow> kwargs \<Rightarrow> dataset run" where
  "Pleiades_init = profile_init pleiades_norad_id pleiades_exp"

definition spot_norad_id :: "(string \<times> int) list" where
  "spot_norad_id = [(''SPOT5'', 27421), (''SPOT6'', 38755), (''SPOT7'', 40053)]"

text \<open>\<open>_SPOT[\d]_\<close>.\<close>

definition spot_exp :: pat where
  "spot_exp = [lit CHR ''_'', lit CHR ''S'', lit CHR ''P'', lit CHR ''O'', lit CHR ''T'',
               isdigit, lit CHR ''_'']"

definition Spot_init :: "string \<Rightarrow> kwargs \<Rightarrow> dataset run" where
  "Spot_init = profile_init spot_norad_id spot_exp"

text \<open>
  The body of the loop \<open>for _id in self._image_ids\<close>, the same text in both files:
  calibrate the tiles of the band, fuse them, and clip the mosaic when a region is set.
\<close>

fun mosaic_loop ::
  "dataset \<Rightarrow> env \<Rightarrow> string \<Rightarrow> (string \<rightharpoonup> string list) \<Rightarrow> string list
   \<Rightarrow> (string \<rightharpoonup> string option) \<Rightarrow> (string \<rightharpoonup> string option) run" where
  "mosaic_loop d e root_path images [] mosaic w = (Inr mosaic, w)"
| "mosaic_loop d e root_path images (i # ids) mosaic w =
     (case images i of
        None \<Rightarrow> (Inl KeyError, w)
      | Some tiles \<Rightarrow>
          (case getCalibratedImages d e tiles (join root_path (''cal/'' @ i)) ''toa'' True w of
             (Inl x, w1) \<Rightarrow> (Inl x, w1)
           | (Inr cal_images, w1) \<Rightarrow>
               (case getTileFusionImages d e cal_images (join root_path (''mosaic/'' @ i)) w1 of
                  (Inl x, w2) \<Rightarrow> (Inl x, w2)
                | (Inr m, w2) \<Rightarrow>
                    (case (if self_roi d \<noteq> None
                           then getRoiImage d e m (join root_path (''roi/'' @ i)) w2
                           else (Inr m, w2)) of
                       (Inl x, w3) \<Rightarrow> (Inl x, w3)
                     | (Inr m', w3) \<Rightarrow>
                         mosaic_loop d e root_path images ids (mosaic(i \<mapsto> m')) w3))))"

text \<open>
  The statements of \<open>processToArd\<close> from the band discovery to the end of the loop,
  the same text in both files.
\<close>

definition buildMosaics ::
  "dataset \<Rightarrow> env \<Rightarrow> string \<Rightarrow> string \<Rightarrow> (string \<rightharpoonup> string option) run" where
  "buildMosaics d e root_path path =
     then_do (getImageLists d e path) (\<lambda>images.
       then_do (case images ''P'' of
                  None \<Rightarrow> raise KeyError
                | Some p_images \<Rightarrow> getSrtmTiles d e p_images) (\<lambda>u.
         mosaic_loop d e root_path images image_ids Map.empty))"

text \<open>
  The working directory and the extraction, the same text in both files: the exit code
  of the extractor and the state it leaves.
\<close>

definition extractScene :: "dataset \<Rightarrow> env \<Rightarrow> world \<Rightarrow> string \<times> string \<times> int \<times> world" where
  "extractScene d e w =
     (let root_path = join (dirname (self_scene d)) ''tmp'';
          path = join root_path ''scene'';
          w1 = ensure_dir path w
      in case extractZip e (self_scene d) path (files w1) of
           (code, fs) \<Rightarrow> (root_path, path, code, w1\<lparr>files := fs\<rparr>))"

text \<open>
  \<open>Pleiades.processToArd\<close>.  With a non-zero exit code the final \<open>return\<close> reads
  \<open>pan_image\<close>, which was never assigned.
\<close>

definition pleiades_processToArd :: "dataset \<Rightarrow> env \<Rightarrow> (string \<times> string option) run" where
  "pleiades_processToArd d e w =
     (case extractScene d e w of
        (root_path, path, code, w2) \<Rightarrow>
          if code = 0 then
            then_do (buildMosaics d e root_path path) (\<lambda>mosaic.
              then_do (getSuperimposedImage d e mosaic (join root_path ''pan'')) (\<lambda>s.
                let mosaic' = mosaic(''MS'' \<mapsto> Some s)
                in then_do (getPansharpenImage d e mosaic' (join root_path ''pan''))
                     (\<lambda>pan_image.
                        case mosaic' ''MS'' of
                          None \<Rightarrow> raise KeyError
                        | Some ms \<Rightarrow> return (pan_image, ms)))) w2
          else (Inl UnboundLocalError, w2))"

text \<open>
  \<open>Spot.processToArd\<close>: it ends with a bare \<open>return\<close>, so the value is \<open>None\<close> on
  every path; \<open>ard_path\<close> is not used.
\<close>

definition spot_processToArd ::
  "dataset \<Rightarrow> env \<Rightarrow> string \<Rightarrow> (string \<times> string option) option run" where
  "spot_processToArd d e ard_path w =
     (case extractScene d e w of
        (root_path, path, code, w2) \<Rightarrow>
          if code = 0 then
            then_do (buildMosaics d e root_path path) (\<lambda>mosaic.
              then_do (getPansharpenImage d e mosaic (join root_path ''pan''))
                (\<lambda>pan_image. return None)) w2
          else (Inr None, w2))"

section \<open>A sample environment\<close>

text \<open>
  Modelled from the spec: an engine that executes and persists its output, writing the
  file named by the \<open>out\<close> parameter (the text before the extended-filename marker
  \<open>?\<close>) and raising nothing; an extractor that succeeds and one that fails; a file
  system search that finds one tile per band.  They are used to run the model on
  concrete scenes.
\<close>

fun out_param :: "(string \<times> pvalue) list \<Rightarrow> string option" where
  "out_param [] = None"
| "out_param ((k, VStr v) # ps) =
     (if k = ''out'' then Some (takeWhile (\<lambda>c. c \<noteq> CHR ''?'') v) else out_param ps)"
| "out_param (kv # ps) = out_param ps"

definition otb_engine :: "call \<Rightarrow> string set \<Rightarrow> pyerr option \<times> string set" where
  "otb_engine c fs =
     (case c of Call app ps \<Rightarrow>
        (case out_param ps of None \<Rightarrow> (None, fs) | Some p \<Rightarrow> (None, insert p fs)))"

definition sample_glob :: "string \<Rightarrow> string set \<Rightarrow> string list" where
  "sample_glob pattern fs =
     (if pattern = ''t/tmp/scene/**/IMG_SPOT6_MS_*/IMG_SPOT6_MS_*.TIF''
        then [''t/IMG_SPOT6_MS_001_R1C1.TIF'']
      else if pattern = ''t/tmp/scene/**/IMG_SPOT6_P_*/IMG_SPOT6_P_*.TIF''
        then [''t/IMG_SPOT6_P_001_R1C1.TIF'']
      else if pattern = ''t/tmp/scene/**/IMG_PHR1A_MS_*/IMG_PHR1A_MS_*.TIF''
        then [''t/IMG_PHR1A_MS_001_R1C1.TIF'']
      else if pattern = ''t/tmp/scene/**/IMG_PHR1A_P_*/IMG_PHR1A_P_*.TIF''
        then [''t/IMG_PHR1A_P_001_R1C1.TIF'']
      else [])"

definition sample_env :: env where
  "sample_env = \<lparr>extractZip = (\<lambda>scene path fs. (0, fs)), glob_glob = sample_glob,
                 engine = otb_engine\<rparr>"

definition failing_env :: env where
  "failing_env = \<lparr>extractZip = (\<lambda>scene path fs. (2, fs)), glob_glob = sample_glob,
                  engine = otb_engine\<rparr>"

definition no_kwargs :: kwargs where
  "no_kwargs = \<lparr>kw_dem_path = None, kw_geoid_pathname = None, kw_epsg = None,
                kw_pan_method = None, kw_roi = None, kw_ram = None, kw_log = Some ''log''\<rparr>"

definition empty_world :: world where
  "empty_world = \<lparr>files = {}, trace = []\<rparr>"

definition pleiades_scene :: string where
  "pleiades_scene = ''t/DS_PHR1A_202001011230451_X.zip''"

definition spot_scene :: string where
  "spot_scene = ''t/DS_SPOT6_202001011230451_X.zip''"

text \<open>The objects the two constructors build for the sample scenes.\<close>

definition pleiades_dataset :: dataset where
  "pleiades_dataset =
     \<lparr>self_scene = pleiades_scene, self_datetime = ''20200101_123045'',
      self_tle = PInt 38012, self_platform = Some ''PHR1A'',
      self_norad_id = pleiades_norad_id, self_dem_path = None, self_geoid_pathname = None,
      self_epsg = None, self_pan_method = None, self_roi = None, self_ram = 4096,
      self_log = ''log/DS_PHR1A_202001011230451_X.log''\<rparr>"

definition spot_dataset :: dataset where
  "spot_dataset =
     \<lparr>self_scene = spot_scene, self_datetime = ''20200101_123045'',
      self_tle = PInt 38755, self_platform = Some ''SPOT6'',
      self_norad_id = spot_norad_id, self_dem_path = None, self_geoid_pathname = None,
      self_epsg = None, self_pan_method = None, self_roi = None, self_ram = 4096,
      self_log = ''log/DS_SPOT6_202001011230451_X.log''\<rparr>"

text \<open>
  The sample Pleiades scene a tenth of a second later (the last digit of the token
  differs), and a scene whose name carries a platform code but no acquisition time.
\<close>

definition pleiades_scene_later :: string where
  "pleiades_scene_later = ''t/DS_PHR1A_202001011230452_X.zip''"

definition untimed_scene :: string where
  "untimed_scene = ''t/DS_PHR1A_X.zip''"

text \<open>
  The token of claim C5, following the claim's words: an instant with a precision of a
  tenth of a second is written as the 15 digits \<open>YYYYMMDDHHMMSSf\<close>, and a valid token
  is the text of an instant of the calendar.  \<open>token_at s i\<close>: an underscore-delimited
  run of 15 digits starts at position \<open>i\<close> of \<open>s\<close>.
\<close>

definition timestamp_token :: "datetime \<Rightarrow> string" where
  "timestamp_token dt =
     pad4 (year dt) @ pad2 (month dt) @ pad2 (day dt) @ pad2 (hour dt) @ pad2 (minute dt) @
     pad2 (second dt) @ [digit_char (microsecond dt div 100000)]"

definition valid_instant :: "datetime \<Rightarrow> bool" where
  "valid_instant dt =
     (1 \<le> year dt \<and> year dt \<le> 9999 \<and> 1 \<le> month dt \<and> month dt \<le> 12 \<and> 1 \<le> day dt
      \<and> day dt \<le> days_in_month (year dt) (month dt) \<and> hour dt < 24 \<and> minute dt < 60
      \<and> second dt < 60 \<and> microsecond dt < 1000000 \<and> microsecond dt mod 100000 = 0)"

definition token_at :: "string \<Rightarrow> nat \<Rightarrow> bool" where
  "token_at s i = match_here datetime_exp (drop i s)"

text \<open>A scene name with two tokens, the first of which is no instant.\<close>

definition two_token_scene :: string where
  "two_token_scene = ''t/A_000000000000000_B_202001011230451_C.zip''"

text \<open>The instant of the sample scenes: 2020-01-01 12:30:45.1.\<close>

definition sample_instant :: datetime where
  "sample_instant = \<lparr>year = 2020, month = 1, day = 1, hour = 12, minute = 30, second = 45,
                      microsecond = 100000\<rparr>"

text \<open>A region of interest that overlaps no image.\<close>

definition no_overlap :: bbox where
  "no_overlap img = Inr None"


text \<open>The mosaics the loop over the bands builds for the sample Pleiades scene.\<close>

definition pleiades_mosaic :: "string \<rightharpoonup> string option" where
  "pleiades_mosaic = [''MS'' \<mapsto> Some ''t/tmp/cal/MS/IMG_PHR1A_MS_001_R1C1_CAL.TIF'',
                      ''P'' \<mapsto> Some ''t/tmp/cal/P/IMG_PHR1A_P_001_R1C1_CAL.TIF'']"

section \<open>Running a stage a second time\<close>


section \<open>Properties\<close>

lemmas run_simps = then_do_def return_def raise_def

lemmas path_simps = join_def dirname_def basename_def after_last_sep_def rstrip_sep_def

subsection \<open>Tile fusion on the empty list\<close>

text \<open>
  Claim C9.  For the empty list of tiles the loop leaves both extents at 0, the test
  \<open>len(images) == nrows * ncols\<close> holds (0 = 0 * 0), the list has not more than one
  element, and \<open>images[0]\<close> raises \<open>IndexError\<close>: the stage neither returns a mosaic
  path nor returns \<open>None\<close>.  Nothing is executed and nothing is created.
\<close>

theorem empty_tile_list_raises:
  "getTileFusionImages d e [] out_path w = (Inl IndexError, w)"
  by (simp add: getTileFusionImages_def)

subsection \<open>Region of interest without overlap\<close>

text \<open>
  Claim C8.  When the resolver reports no overlap for an image (it returns \<open>None\<close>),
  the clipping stage returns \<open>None\<close> and leaves the state as it was: no application
  of the engine is executed and no directory is created.
\<close>

theorem roi_no_overlap:
  assumes "self_roi d = Some bb" and "bb img = Inr None"
  shows "getRoiImage d e img out_path w = (Inr None, w)"
  using assms by (simp add: getRoiImage_def)

theorem roi_no_overlap_witness:
  "getRoiImage (pleiades_dataset\<lparr>self_roi := Some no_overlap\<rparr>) sample_env
     (Some ''t/tmp/mosaic/MS/a.TIF'') ''t/tmp/roi/MS'' empty_world = (Inr None, empty_world)"
  using roi_no_overlap [of "pleiades_dataset\<lparr>self_roi := Some no_overlap\<rparr>" no_overlap
      "Some ''t/tmp/mosaic/MS/a.TIF''"]
  by (simp add: no_overlap_def)

subsection \<open>Failure of the archive extractor\<close>

lemma extractScene_trace:
  "extractScene d e w = (root_path, path, code, w2) \<Longrightarrow> trace w2 = trace w"
  by (auto simp: extractScene_def Let_def ensure_dir_def split: prod.splits if_splits)

text \<open>
  Claim C6.  When the extractor returns a non-zero exit code, the run ends in the state
  the extraction left: \<open>Pleiades.processToArd\<close> raises (its \<open>return\<close> reads the
  unassigned \<open>pan_image\<close>) and \<open>Spot.processToArd\<close> returns \<open>None\<close>; neither returns a
  product, and the trace holds no search and no application of the engine beyond what
  it held before the call.
\<close>

theorem extract_failure_aborts:
  assumes "extractScene d e w = (root_path, path, code, w2)" and "code \<noteq> 0"
  shows "pleiades_processToArd d e w = (Inl UnboundLocalError, w2)
       \<and> spot_processToArd d e ard_path w = (Inr None, w2)
       \<and> trace w2 = trace w"
  using assms extractScene_trace [OF assms(1)]
  by (simp add: pleiades_processToArd_def spot_processToArd_def)

lemma failing_extractScene:
  "extractScene pleiades_dataset failing_env empty_world
   = (''t/tmp'', ''t/tmp/scene'', 2, \<lparr>files = {''t/tmp/scene''}, trace = []\<rparr>)"
  by (simp add: extractScene_def pleiades_dataset_def pleiades_scene_def failing_env_def
      empty_world_def ensure_dir_def os_path_exists_def Let_def path_simps)

theorem extract_failure_aborts_witness:
  "pleiades_processToArd pleiades_dataset failing_env empty_world
     = (Inl UnboundLocalError, \<lparr>files = {''t/tmp/scene''}, trace = []\<rparr>)
   \<and> spot_processToArd pleiades_dataset failing_env ''ard'' empty_world
     = (Inr None, \<lparr>files = {''t/tmp/scene''}, trace = []\<rparr>)"
  using extract_failure_aborts [OF failing_extractScene, of "''ard''"] by simp

subsection \<open>Tile fusion\<close>

lemmas tile_simps = getTileCoordinates_def getTile_def splitext_ext_def upper_def upper_char_def
  tile_exp_def lit_def isdigit_def rng_def strip_us_def int_of_digits_def digit_val_def
  basename_def after_last_sep_def

lemma sample_engine_ok: "fst (engine sample_env c fs) = None"
  by (cases c) (simp add: sample_env_def otb_engine_def split: option.splits)

lemma sort_two_tiles:
  "sort [''t/a_R1C2.TIF'', ''t/a_R1C1.TIF''] = [''t/a_R1C1.TIF'', ''t/a_R1C2.TIF'']"
  by (simp add: less_eq_char_def less_char_def)

lemma grid_two_tiles: "grid_extent [''t/a_R1C2.TIF'', ''t/a_R1C1.TIF''] 0 0 = Inr (1, 2)"
  by (simp add: tile_simps)

text \<open>
  Claim C2, as stated, fails for a single tile that is not the tile R1C1: the one-tile
  branch is nested under the test \<open>len(images) == nrows * ncols\<close>, and for the tile
  R1C2 the extents are 1 and 2, so 1 is not 1 * 2 and the stage returns \<open>None\<close>
  instead of the tile's own path.
\<close>

theorem single_tile_counterexample:
  "length [''t/a_R1C2.TIF''] = 1
   \<and> getTileCoordinates ''t/a_R1C2.TIF'' = [''1'', ''2'']
   \<and> getTileFusionImages pleiades_dataset sample_env [''t/a_R1C2.TIF''] ''o'' empty_world
       = (Inr None, empty_world)"
  by (simp add: getTileFusionImages_def tile_simps empty_world_def)

text \<open>
  Claim C2, amended.  For a non-empty list of tiles whose names all carry a tile code,
  with \<open>nrows\<close> and \<open>ncols\<close> the largest row and column:
  \<^item> when the count equals \<open>nrows * ncols\<close> and there is more than one tile, the stage
    returns the path made of the output directory and the basename of the first tile
    in sorted order with \<open>_R1C1\<close> replaced by \<open>_MOSAIC\<close>, unless the engine, run
    because that file does not exist, raises;
  \<^item> when there is exactly one tile and the count equals \<open>nrows * ncols\<close> (the tile is
    R1C1), the tile's own path is returned and the state is unchanged;
  \<^item> when the count differs from \<open>nrows * ncols\<close>, for one tile as for several, the
    stage returns \<open>None\<close> and the state is unchanged.
\<close>

theorem tile_fusion_policy:
  assumes "grid_extent images 0 0 = Inr (nrows, ncols)" and "images \<noteq> []"
  shows "(length images = nrows * ncols \<and> 1 < length images \<longrightarrow>
            (let out_pathname = mosaic_pathname out_path (hd (sort images));
                 r = getTileFusionImages d e images out_path w
             in fst r = Inr (Some out_pathname)
                \<or> (\<exists>x. fst r = Inl x \<and> out_pathname \<notin> files w
                       \<and> fst (engine e (fusion_call (sort images) out_pathname ncols nrows)
                               (files (ensure_dir out_path w))) = Some x)))
       \<and> (length images = 1 \<and> nrows * ncols = 1 \<longrightarrow>
            getTileFusionImages d e images out_path w = (Inr (Some (hd images)), w))
       \<and> (length images \<noteq> nrows * ncols \<longrightarrow>
            getTileFusionImages d e images out_path w = (Inr None, w))"
proof (intro conjI impI)
  assume "length images = nrows * ncols \<and> 1 < length images"
  then show "let out_pathname = mosaic_pathname out_path (hd (sort images));
                 r = getTileFusionImages d e images out_path w
             in fst r = Inr (Some out_pathname)
                \<or> (\<exists>x. fst r = Inl x \<and> out_pathname \<notin> files w
                       \<and> fst (engine e (fusion_call (sort images) out_pathname ncols nrows)
                               (files (ensure_dir out_path w))) = Some x)"
    using assms(1)
    by (auto simp: getTileFusionImages_def Let_def run_simps ExecuteAndWriteOutput_def
        os_path_exists_def split: prod.splits option.splits)
next
  assume "length images = 1 \<and> nrows * ncols = 1"
  then show "getTileFusionImages d e images out_path w = (Inr (Some (hd images)), w)"
    using assms by (cases images) (auto simp: getTileFusionImages_def)
next
  assume "length images \<noteq> nrows * ncols"
  then show "getTileFusionImages d e images out_path w = (Inr None, w)"
    using assms(1) by (simp add: getTileFusionImages_def)
qed

theorem tile_fusion_policy_witness:
  "grid_extent [''t/a_R1C2.TIF'', ''t/a_R1C1.TIF''] 0 0 = Inr (1, 2)
   \<and> fst (getTileFusionImages pleiades_dataset sample_env [''t/a_R1C2.TIF'', ''t/a_R1C1.TIF'']
            ''o'' empty_world) = Inr (Some ''o/a_MOSAIC.TIF'')"
  using tile_fusion_policy [OF grid_two_tiles, of "''o''" pleiades_dataset sample_env empty_world]
  by (simp add: tile_simps sort_two_tiles sample_engine_ok mosaic_pathname_def path_simps Let_def)

subsection \<open>The file-existence cache\<close>























subsection \<open>The two stage topologies\<close>

lemma super_trace:
  assumes "mosaic ''MS'' = Some (Some ms)" and "mosaic ''P'' = Some (Some p)"
    and "getSuperimposedImage d e mosaic out_path w = (r, w')"
  shows "trace w' = trace w @ (if super_pathname out_path ms \<in> files w then []
                               else [Exec (Call ''Superimpose''
                                    ([(''inr'', VStr p), (''inm'', VStr ms),
                                    (''out'', VStr (super_pathname out_path ms @ ''?&gdal:co:TILED=YES''))] @
                                    elev_params d))])
         \<and> (\<forall>s. r = Inr s \<longrightarrow> s = super_pathname out_path ms)"
  using assms
  by (auto simp: getSuperimposedImage_def image_of_def Let_def os_path_exists_def run_simps
      ExecuteAndWriteOutput_def ensure_dir_def super_call_def pan_call_def
      split: if_splits prod.splits option.splits)

lemma pan_trace:
  assumes "mosaic ''MS'' = Some (Some ms)" and "mosaic ''P'' = Some (Some p)"
    and "getPansharpenImage d e mosaic out_path w = (r, w')"
  shows "trace w' = trace w @ (if pan_pathname out_path ms \<in> files w then []
                               else [Exec (Call ''Pansharpening''
                                    ([(''inp'', VStr p), (''inxs'', VStr ms),
                                    (''out'', VStr (pan_pathname out_path ms @
                                    ''?&gdal:co:TILED=YES&gdal:co:COMPRESS=DEFLATE&gdal:co:BIGTIFF=YES''))] @
                                    method_params d))])
         \<and> (\<forall>s. r = Inr s \<longrightarrow> s = pan_pathname out_path ms)"
  using assms
  by (auto simp: getPansharpenImage_def image_of_def Let_def os_path_exists_def run_simps
      ExecuteAndWriteOutput_def ensure_dir_def super_call_def pan_call_def
      split: if_splits prod.splits option.splits)

text \<open>
  Claim C1.  Let both \<open>processToArd\<close> bodies run on the same scene, where the
  extraction succeeds and the shared statements (band discovery, elevation tiles,
  calibration, fusion, clipping) leave the mosaics \<open>ms\<close> and \<open>p\<close> in the state \<open>w3\<close>.
  Up to \<open>w3\<close> the two runs are the same.  From there \<open>Pleiades.processToArd\<close> runs
  the superimposition stage: unless its output \<open>s\<close> exists, the application
  \<open>Superimpose\<close> is executed with the panchromatic mosaic \<open>p\<close> as reference input
  \<open>inr\<close> and the multispectral mosaic \<open>ms\<close> as moving input \<open>inm\<close>.  Then it runs
  pansharpening, and the application \<open>Pansharpening\<close>, unless its output exists, is
  executed with \<open>p\<close> as \<open>inp\<close> and the superimposed image \<open>s\<close> as \<open>inxs\<close>.
  \<open>Spot.processToArd\<close> runs pansharpening at once: \<open>Pansharpening\<close> is executed with
  \<open>p\<close> as \<open>inp\<close> and the mosaic \<open>ms\<close> itself as \<open>inxs\<close>, and no other application
  (no \<open>Superimpose\<close>, no \<open>BundleToPerfectSensor\<close>) is executed after \<open>w3\<close>.
\<close>

theorem topology_divergence:
  assumes ex: "extractScene d e w = (root_path, path, 0, w2)"
    and bm: "buildMosaics d e root_path path w2 = (Inr mosaic, w3)"
    and ms: "mosaic ''MS'' = Some (Some ms)" and p: "mosaic ''P'' = Some (Some p)"
  shows "(let pan = join root_path ''pan''; s = super_pathname pan ms
          in (\<exists>r4 w4. getSuperimposedImage d e mosaic pan w3 = (r4, w4)
                \<and> trace w4 = trace w3 @
                     (if s \<in> files w3 then []
                      else [Exec (Call ''Superimpose''
                                    ([(''inr'', VStr p), (''inm'', VStr ms),
                                      (''out'', VStr (s @ ''?&gdal:co:TILED=YES''))] @
                                     elev_params d))])
                \<and> (case r4 of
                      Inl x \<Rightarrow> pleiades_processToArd d e w = (Inl x, w4)
                    | Inr s' \<Rightarrow> s' = s
                        \<and> trace (snd (pleiades_processToArd d e w))
                            = trace w4 @
                              (if pan_pathname pan s \<in> files w4 then []
                               else [Exec (Call ''Pansharpening''
                                             ([(''inp'', VStr p), (''inxs'', VStr s),
                                               (''out'', VStr (pan_pathname pan s @
                     ''?&gdal:co:TILED=YES&gdal:co:COMPRESS=DEFLATE&gdal:co:BIGTIFF=YES''))] @
                                              method_params d))])))
           \<and> trace (snd (spot_processToArd d e ard_path w))
               = trace w3 @
                 (if pan_pathname pan ms \<in> files w3 then []
                  else [Exec (Call ''Pansharpening''
                                ([(''inp'', VStr p), (''inxs'', VStr ms),
                                  (''out'', VStr (pan_pathname pan ms @
                     ''?&gdal:co:TILED=YES&gdal:co:COMPRESS=DEFLATE&gdal:co:BIGTIFF=YES''))] @
                                 method_params d))]))"
proof -
  define pan where "pan = join root_path ''pan''"
  define s where "s = super_pathname pan ms"
  obtain r4 w4 where r4: "getSuperimposedImage d e mosaic pan w3 = (r4, w4)"
    by (cases "getSuperimposedImage d e mosaic pan w3")
  note st = super_trace [OF ms p r4]
  have pl: "case r4 of
              Inl x \<Rightarrow> pleiades_processToArd d e w = (Inl x, w4)
            | Inr s' \<Rightarrow> s' = s
                \<and> trace (snd (pleiades_processToArd d e w))
                    = trace w4 @ (if pan_pathname pan s \<in> files w4 then []
                                  else [Exec (Call ''Pansharpening''
                                    ([(''inp'', VStr p), (''inxs'', VStr s),
                                    (''out'', VStr (pan_pathname pan s @
                                    ''?&gdal:co:TILED=YES&gdal:co:COMPRESS=DEFLATE&gdal:co:BIGTIFF=YES''))] @
                                    method_params d))])"
  proof (cases r4)
    case (Inl x)
    then show ?thesis
      using ex bm r4 by (simp add: pleiades_processToArd_def run_simps pan_def)
  next
    case (Inr s')
    then have s': "s' = s" using st by (simp add: s_def)
    obtain r5 w5 where r5: "getPansharpenImage d e (mosaic(''MS'' \<mapsto> Some s)) pan w4 = (r5, w5)"
      by (cases "getPansharpenImage d e (mosaic(''MS'' \<mapsto> Some s)) pan w4")
    have "trace w5 = trace w4 @ (if pan_pathname pan s \<in> files w4 then []
                                  else [Exec (Call ''Pansharpening''
                                    ([(''inp'', VStr p), (''inxs'', VStr s),
                                    (''out'', VStr (pan_pathname pan s @
                                    ''?&gdal:co:TILED=YES&gdal:co:COMPRESS=DEFLATE&gdal:co:BIGTIFF=YES''))] @
                                    method_params d))])"
      using pan_trace [of "mosaic(''MS'' \<mapsto> Some s)" s p d e pan w4 r5 w5] p r5 by simp
    moreover have "snd (pleiades_processToArd d e w) = w5"
      using ex bm r4 r5 Inr s'
      by (cases r5) (simp_all add: pleiades_processToArd_def run_simps pan_def Let_def)
    ultimately show ?thesis using Inr s' by simp
  qed
  obtain r6 w6 where r6: "getPansharpenImage d e mosaic pan w3 = (r6, w6)"
    by (cases "getPansharpenImage d e mosaic pan w3")
  have "snd (spot_processToArd d e ard_path w) = w6"
    using ex bm r6 by (cases r6) (simp_all add: spot_processToArd_def run_simps pan_def)
  then have sp: "trace (snd (spot_processToArd d e ard_path w))
               = trace w3 @ (if pan_pathname pan ms \<in> files w3 then []
                             else [Exec (Call ''Pansharpening''
                                    ([(''inp'', VStr p), (''inxs'', VStr ms),
                                    (''out'', VStr (pan_pathname pan ms @
                                    ''?&gdal:co:TILED=YES&gdal:co:COMPRESS=DEFLATE&gdal:co:BIGTIFF=YES''))] @
                                    method_params d))])"
    using pan_trace [OF ms p r6] by simp
  show ?thesis
    unfolding Let_def pan_def [symmetric] s_def [symmetric]
    using r4 st pl sp by (auto simp: s_def)
qed

lemmas eval_simps = run_simps path_simps tile_simps Let_def os_path_exists_def ensure_dir_def
  ExecuteAndWriteOutput_def sample_env_def otb_engine_def empty_world_def
  getImageLists_def image_pattern_def image_ids_def sample_glob_def getSrtmTiles_def
  getCalibratedImages_def cal_pathname_def cal_call_def getTileFusionImages_def
  image_of_def super_pathname_def super_call_def pan_pathname_def pan_call_def
  getSuperimposedImage_def getPansharpenImage_def elev_params_def method_params_def
  extractScene_def buildMosaics_def

lemma sample_extract:
  "extractScene pleiades_dataset sample_env empty_world
   = (''t/tmp'', ''t/tmp/scene'', 0, \<lparr>files = {''t/tmp/scene''}, trace = []\<rparr>)"
  by (simp add: eval_simps pleiades_dataset_def pleiades_scene_def)

lemma sample_mosaics:
  "buildMosaics pleiades_dataset sample_env ''t/tmp'' ''t/tmp/scene''
     \<lparr>files = {''t/tmp/scene''}, trace = []\<rparr>
   = (Inr pleiades_mosaic,
      snd (buildMosaics pleiades_dataset sample_env ''t/tmp'' ''t/tmp/scene''
             \<lparr>files = {''t/tmp/scene''}, trace = []\<rparr>))"
  by (simp add: prod_eq_iff eval_simps pleiades_dataset_def pleiades_mosaic_def)

theorem topology_divergence_witness:
  "trace (snd (pleiades_processToArd pleiades_dataset sample_env empty_world)) =
     [Glob ''t/tmp/scene/**/IMG_PHR1A_MS_*/IMG_PHR1A_MS_*.TIF'',
      Glob ''t/tmp/scene/**/IMG_PHR1A_P_*/IMG_PHR1A_P_*.TIF'',
      Exec (Call ''OpticalCalibration''
              [(''in'', VStr ''t/IMG_PHR1A_MS_001_R1C1.TIF''), (''level'', VStr ''toa''),
               (''out'', VStr ''t/tmp/cal/MS/IMG_PHR1A_MS_001_R1C1_CAL.TIF?&gdal:co:TILED=YES''),
               (''milli'', VStr ''True''), (''out'', VPixelType ''uint16'')]),
      Exec (Call ''OpticalCalibration''
              [(''in'', VStr ''t/IMG_PHR1A_P_001_R1C1.TIF''), (''level'', VStr ''toa''),
               (''out'', VStr ''t/tmp/cal/P/IMG_PHR1A_P_001_R1C1_CAL.TIF?&gdal:co:TILED=YES''),
               (''milli'', VStr ''True''), (''out'', VPixelType ''uint16'')]),
      Exec (Call ''Superimpose''
              [(''inr'', VStr ''t/tmp/cal/P/IMG_PHR1A_P_001_R1C1_CAL.TIF''),
               (''inm'', VStr ''t/tmp/cal/MS/IMG_PHR1A_MS_001_R1C1_CAL.TIF''),
               (''out'', VStr ''t/tmp/pan/IMG_PHR1A_MS_SUPER_001_R1C1_CAL.TIF?&gdal:co:TILED=YES'')]),
      Exec (Call ''Pansharpening''
              [(''inp'', VStr ''t/tmp/cal/P/IMG_PHR1A_P_001_R1C1_CAL.TIF''),
               (''inxs'', VStr ''t/tmp/pan/IMG_PHR1A_MS_SUPER_001_R1C1_CAL.TIF''),
               (''out'', VStr (''t/tmp/pan/IMG_PHR1A_PAN_001_R1C1_CAL.TIF'' @
                  ''?&gdal:co:TILED=YES&gdal:co:COMPRESS=DEFLATE&gdal:co:BIGTIFF=YES''))])]
   \<and> trace (snd (spot_processToArd pleiades_dataset sample_env ''ard'' empty_world)) =
     [Glob ''t/tmp/scene/**/IMG_PHR1A_MS_*/IMG_PHR1A_MS_*.TIF'',
      Glob ''t/tmp/scene/**/IMG_PHR1A_P_*/IMG_PHR1A_P_*.TIF'',
      Exec (Call ''OpticalCalibration''
              [(''in'', VStr ''t/IMG_PHR1A_MS_001_R1C1.TIF''), (''level'', VStr ''toa''),
               (''out'', VStr ''t/tmp/cal/MS/IMG_PHR1A_MS_001_R1C1_CAL.TIF?&gdal:co:TILED=YES''),
               (''milli'', VStr ''True''), (''out'', VPixelType ''uint16'')]),
      Exec (Call ''OpticalCalibration''
              [(''in'', VStr ''t/IMG_PHR1A_P_001_R1C1.TIF''), (''level'', VStr ''toa''),
               (''out'', VStr ''t/tmp/cal/P/IMG_PHR1A_P_001_R1C1_CAL.TIF?&gdal:co:TILED=YES''),
               (''milli'', VStr ''True''), (''out'', VPixelType ''uint16'')]),
      Exec (Call ''Pansharpening''
              [(''inp'', VStr ''t/tmp/cal/P/IMG_PHR1A_P_001_R1C1_CAL.TIF''),
               (''inxs'', VStr ''t/tmp/cal/MS/IMG_PHR1A_MS_001_R1C1_CAL.TIF''),
               (''out'', VStr (''t/tmp/pan/IMG_PHR1A_MS_001_R1C1_CAL.TIF'' @
                  ''?&gdal:co:TILED=YES&gdal:co:COMPRESS=DEFLATE&gdal:co:BIGTIFF=YES''))])]"
  using topology_divergence [OF sample_extract sample_mosaics, of
      "''t/tmp/cal/MS/IMG_PHR1A_MS_001_R1C1_CAL.TIF''"
      "''t/tmp/cal/P/IMG_PHR1A_P_001_R1C1_CAL.TIF''" "''ard''"]
  by (simp add: eval_simps pleiades_processToArd_def spot_processToArd_def
      pleiades_dataset_def pleiades_scene_def pleiades_mosaic_def)

subsection \<open>What \<open>processToArd\<close> returns\<close>

lemma spot_never_returns_path:
  "fst (spot_processToArd d e ard_path w) = Inr None
   \<or> (\<exists>x. fst (spot_processToArd d e ard_path w) = Inl x)"
  by (auto simp: spot_processToArd_def run_simps split: prod.splits sum.splits)

lemma pleiades_returns_pair:
  "fst (pleiades_processToArd pleiades_dataset sample_env empty_world)
   = Inr (''t/tmp/pan/IMG_PHR1A_PAN_001_R1C1_CAL.TIF'',
          Some ''t/tmp/pan/IMG_PHR1A_MS_SUPER_001_R1C1_CAL.TIF'')"
  by (simp add: eval_simps pleiades_processToArd_def pleiades_dataset_def pleiades_scene_def)

text \<open>
  Claim C4 (the code departs from it).  A SPOT scene that is processed to the end (the
  extraction succeeds and the last application executed is \<open>Pansharpening\<close>, which
  writes the product) returns \<open>None\<close>: \<open>Spot.processToArd\<close> assigns \<open>pan_image\<close>
  and ends with a bare \<open>return\<close>, where \<open>Pleiades.processToArd\<close> returns the pair.
\<close>

theorem spot_returns_none:
  "fst (spot_processToArd spot_dataset sample_env ''ard'' empty_world) = Inr None
   \<and> last (trace (snd (spot_processToArd spot_dataset sample_env ''ard'' empty_world)))
       = Exec (pan_call spot_dataset ''t/tmp/cal/P/IMG_SPOT6_P_001_R1C1_CAL.TIF''
                 ''t/tmp/cal/MS/IMG_SPOT6_MS_001_R1C1_CAL.TIF''
                 ''t/tmp/pan/IMG_SPOT6_MS_001_R1C1_CAL.TIF'')
   \<and> ''t/tmp/pan/IMG_SPOT6_MS_001_R1C1_CAL.TIF''
       \<in> files (snd (spot_processToArd spot_dataset sample_env ''ard'' empty_world))"
  by (simp add: eval_simps spot_processToArd_def spot_dataset_def spot_scene_def)

subsection \<open>Evaluating the constructors on the sample scenes\<close>

lemmas class_simps = lit_def rng_def isdigit_def one_of_def

lemma pleiades_scene_token:
  "re_search datetime_exp (basename pleiades_scene) = Some ''_202001011230451_''"
  by (simp add: pleiades_scene_def datetime_exp_def path_simps class_simps)

lemma later_scene_token:
  "re_search datetime_exp (basename pleiades_scene_later) = Some ''_202001011230452_''"
  by (simp add: pleiades_scene_later_def datetime_exp_def path_simps class_simps)

lemmas strptime_simps = strptime_def strptime_regex_def re_Y_def re_m_def re_d_def re_H_def
  re_M_def re_S_def re_f_def class_simps int_of_digits_def digit_val_def days_in_month_def
  is_leap_def

lemma sample_token_parsed:
  "strptime ''202001011230451''
   = Inr \<lparr>year = 2020, month = 1, day = 1, hour = 12, minute = 30, second = 45,
          microsecond = 100000\<rparr>"
  by (simp add: strptime_simps)

lemma later_token_parsed:
  "strptime ''202001011230452''
   = Inr \<lparr>year = 2020, month = 1, day = 1, hour = 12, minute = 30, second = 45,
          microsecond = 200000\<rparr>"
  by (simp add: strptime_simps)

lemma sample_strftime:
  "strftime \<lparr>year = 2020, month = Suc 0, day = Suc 0, hour = 12, minute = 30, second = 45,
             microsecond = us\<rparr> = ''20200101_123045''"
  by (simp add: strftime_def pad2_def digit_char_def)

lemma pleiades_scene_datetime: "getDateTimeString pleiades_scene = Inr ''20200101_123045''"
  by (simp add: getDateTimeString_def getDateTime_def pleiades_scene_token strip_us_def
      sample_token_parsed sample_strftime)

lemma later_scene_datetime: "getDateTimeString pleiades_scene_later = Inr ''20200101_123045''"
  by (simp add: getDateTimeString_def getDateTime_def later_scene_token strip_us_def
      later_token_parsed sample_strftime)

lemma pleiades_scene_platform: "getPlatform pleiades_scene pleiades_exp = Some ''PHR1A''"
  by (simp add: getPlatform_def pleiades_exp_def pleiades_scene_def path_simps strip_us_def
      class_simps)

lemma later_scene_platform: "getPlatform pleiades_scene_later pleiades_exp = Some ''PHR1A''"
  by (simp add: getPlatform_def pleiades_exp_def pleiades_scene_later_def path_simps
      strip_us_def class_simps)

lemmas init_simps = Pleiades_init_def profile_init_def Dataset_init_def run_simps Let_def
  no_kwargs_def empty_world_def ensure_dir_def os_path_exists_def norad_lookup_def
  pleiades_norad_id_def join_def

lemma pleiades_scene_init:
  "fst (Pleiades_init pleiades_scene no_kwargs empty_world) = Inr pleiades_dataset"
  by (simp add: init_simps pleiades_scene_datetime pleiades_scene_platform pleiades_dataset_def)
    (simp add: pleiades_scene_def path_simps)

lemma later_scene_init:
  "fst (Pleiades_init pleiades_scene_later no_kwargs empty_world)
   = Inr (pleiades_dataset\<lparr>self_scene := pleiades_scene_later,
                            self_log := ''log/DS_PHR1A_202001011230452_X.log''\<rparr>)"
  by (simp add: init_simps later_scene_datetime later_scene_platform pleiades_dataset_def)
    (simp add: pleiades_scene_later_def path_simps)

subsection \<open>The cache subdirectory\<close>

text \<open>
  Whatever the registry, the pattern and the scene, an object that a profile's
  constructor has built holds an integer in \<open>self._tle\<close>, and \<open>os.path.join\<close> raises
  \<open>TypeError\<close> on it.
\<close>

lemma getSubPath_after_init:
  assumes "profile_init reg regexp scene kw w = (Inr d, w')"
  shows "getSubPath d = Inl TypeError"
  using assms
  by (auto simp: profile_init_def Dataset_init_def run_simps Let_def getSubPath_def
      split: sum.splits)

text \<open>
  Claim C10 (the code departs from it).  Two scenes whose tokens differ in the last
  digit only are constructed with the same whole-second datetime string and the same
  orbital identity, but \<open>getSubPath\<close> yields no subdirectory for either: it joins the
  integer \<open>self._tle\<close> to the string and raises \<open>TypeError\<close>.
\<close>

theorem subpath_raises_type_error:
  "fst (Pleiades_init pleiades_scene no_kwargs empty_world) = Inr pleiades_dataset
   \<and> fst (Pleiades_init pleiades_scene_later no_kwargs empty_world)
       = Inr (pleiades_dataset\<lparr>self_scene := pleiades_scene_later,
                                self_log := ''log/DS_PHR1A_202001011230452_X.log''\<rparr>)
   \<and> self_tle pleiades_dataset = PInt 38012
   \<and> self_datetime pleiades_dataset = ''20200101_123045''
   \<and> getSubPath pleiades_dataset = Inl TypeError
   \<and> getSubPath (pleiades_dataset\<lparr>self_scene := pleiades_scene_later,
                                   self_log := ''log/DS_PHR1A_202001011230452_X.log''\<rparr>)
       = Inl TypeError"
  by (simp add: pleiades_scene_init later_scene_init getSubPath_def pleiades_dataset_def)

subsection \<open>Construction and the orbital-identity registry\<close>

lemma untimed_scene_platform: "getPlatform untimed_scene pleiades_exp = Some ''PHR1A''"
  by (simp add: getPlatform_def pleiades_exp_def untimed_scene_def path_simps strip_us_def
      class_simps)

lemma untimed_scene_datetime: "getDateTimeString untimed_scene = Inl AttributeError"
  by (simp add: getDateTimeString_def getDateTime_def untimed_scene_def datetime_exp_def
      path_simps class_simps)

text \<open>
  Claim C7, as stated, fails for a scene whose platform code is a key of the registry
  but whose name carries no acquisition time: the base constructor formats the datetime
  before the profile looks the platform up, and \<open>None\<close> has no \<open>strftime\<close>.
\<close>

theorem registered_platform_counterexample:
  "getPlatform untimed_scene pleiades_exp = Some ''PHR1A''
   \<and> map_of pleiades_norad_id ''PHR1A'' = Some 38012
   \<and> Pleiades_init untimed_scene no_kwargs empty_world = (Inl AttributeError, empty_world)"
  by (simp add: untimed_scene_platform untimed_scene_datetime pleiades_norad_id_def
      Pleiades_init_def profile_init_def Dataset_init_def run_simps)

text \<open>
  Claim C7, amended.  For either profile, with its registry and its platform pattern:
  \<^item> when the scene name yields a datetime string and the extracted platform code is a
    key of the registry, construction succeeds, the stored orbital identity is the
    registry's value for that code, and the stored platform is that code;
  \<^item> when the scene name yields a datetime string and the platform code is not a key of
    the registry, or the pattern does not match at all, construction fails with
    \<open>KeyError\<close>: there is no fallback value;
  \<^item> when the scene name yields no datetime string, construction fails with the
    exception of the datetime extraction, whatever the platform code.
\<close>

theorem construction_policy:
  assumes "(init, reg, regexp) = (Pleiades_init, pleiades_norad_id, pleiades_exp)
           \<or> (init, reg, regexp) = (Spot_init, spot_norad_id, spot_exp)"
  shows "(\<forall>dts p t. getDateTimeString scene = Inr dts \<and> getPlatform scene regexp = Some p
                    \<and> map_of reg p = Some t \<longrightarrow>
            (\<exists>d w'. init scene kw w = (Inr d, w') \<and> self_tle d = PInt t
                     \<and> self_platform d = Some p \<and> self_datetime d = dts))
       \<and> (\<forall>dts. getDateTimeString scene = Inr dts
                 \<and> (case getPlatform scene regexp of None \<Rightarrow> True
                     | Some p \<Rightarrow> map_of reg p = None) \<longrightarrow>
            (\<exists>w'. init scene kw w = (Inl KeyError, w')))
       \<and> (\<forall>x. getDateTimeString scene = Inl x \<longrightarrow> init scene kw w = (Inl x, w))"
proof -
  have init: "init = profile_init reg regexp"
    using assms by (auto simp: Pleiades_init_def Spot_init_def)
  show ?thesis
    unfolding init
    by (auto simp: profile_init_def Dataset_init_def run_simps Let_def norad_lookup_def
        split: option.splits)
qed

theorem construction_policy_witness:
  "\<exists>d w'. Pleiades_init pleiades_scene no_kwargs empty_world = (Inr d, w')
           \<and> self_tle d = PInt 38012 \<and> self_platform d = Some ''PHR1A''
           \<and> self_datetime d = ''20200101_123045''"
  using construction_policy [of Pleiades_init pleiades_norad_id pleiades_exp pleiades_scene
      no_kwargs empty_world]
  by (simp add: pleiades_scene_datetime pleiades_scene_platform pleiades_norad_id_def)

subsection \<open>Parsing the acquisition time\<close>

lemma digit_cases:
  "a < (10::nat) \<Longrightarrow> a = 0 \<or> a = 1 \<or> a = 2 \<or> a = 3 \<or> a = 4 \<or> a = 5 \<or> a = 6 \<or> a = 7
    \<or> a = 8 \<or> a = 9"
  by presburger

lemma of_char_digit: "a < 10 \<Longrightarrow> of_char (digit_char a) = (48::nat) + a"
  using digit_cases [of a] by (auto simp: digit_char_def)

lemma isdigit_digit: "a < 10 \<Longrightarrow> isdigit (digit_char a)"
  by (simp add: isdigit_def rng_def of_char_digit)

lemma rng_digit:
  "a < 10 \<Longrightarrow> rng lo hi (digit_char a) = ((of_char lo :: nat) \<le> 48 + a \<and> 48 + a \<le> (of_char hi :: nat))"
  by (simp add: rng_def of_char_digit)

lemma lit_digit: "a < 10 \<Longrightarrow> lit c (digit_char a) = (48 + a = (of_char c :: nat))"
  using of_char_digit [of a] by (auto simp: lit_def)

lemma digit_val_digit: "a < 10 \<Longrightarrow> digit_val (digit_char a) = a"
  by (simp add: digit_val_def of_char_digit)

lemmas digit_simps = isdigit_digit rng_digit lit_digit

text \<open>
  Each group of the expression of \<open>strptime\<close> takes the two digits (four for the year)
  of a field in range with its first matching alternative, when the rest of the
  expression matches the rest of the text.
\<close>

lemma alts_Y:
  assumes "a < 10" "b < 10" "c < 10" "d < 10" and "match_groups gs rest = Some r"
  shows "try_alts re_Y gs (digit_char a # digit_char b # digit_char c # digit_char d # rest)
         = Some ([digit_char a, digit_char b, digit_char c, digit_char d] # r)"
  using assms by (simp add: re_Y_def digit_simps)

lemma alts_m:
  assumes "(a = 1 \<and> b \<le> 2) \<or> (a = 0 \<and> 1 \<le> b \<and> b < 10)"
    and "match_groups gs rest = Some r"
  shows "try_alts re_m gs (digit_char a # digit_char b # rest)
         = Some ([digit_char a, digit_char b] # r)"
  using assms by (auto simp: re_m_def digit_simps)

lemma alts_d:
  assumes "(a = 3 \<and> b \<le> 1) \<or> (1 \<le> a \<and> a \<le> 2 \<and> b < 10) \<or> (a = 0 \<and> 1 \<le> b \<and> b < 10)"
    and "match_groups gs rest = Some r"
  shows "try_alts re_d gs (digit_char a # digit_char b # rest)
         = Some ([digit_char a, digit_char b] # r)"
  using assms by (auto simp: re_d_def digit_simps)

lemma alts_H:
  assumes "(a = 2 \<and> b \<le> 3) \<or> (a \<le> 1 \<and> b < 10)"
    and "match_groups gs rest = Some r"
  shows "try_alts re_H gs (digit_char a # digit_char b # rest)
         = Some ([digit_char a, digit_char b] # r)"
  using assms by (auto simp: re_H_def digit_simps)

lemma alts_M:
  assumes "a \<le> 5" "b < 10" and "match_groups gs rest = Some r"
  shows "try_alts re_M gs (digit_char a # digit_char b # rest)
         = Some ([digit_char a, digit_char b] # r)"
  using assms by (auto simp: re_M_def digit_simps)

lemma alts_S:
  assumes "a \<le> 5" "b < 10" and "match_groups gs rest = Some r"
  shows "try_alts re_S gs (digit_char a # digit_char b # rest)
         = Some ([digit_char a, digit_char b] # r)"
  using assms by (auto simp: re_S_def digit_simps)

lemma alts_f:
  assumes "a < 10"
  shows "try_alts re_f [] [digit_char a] = Some [[digit_char a]]"
  using assms by (simp add: re_f_def digit_simps)

lemma tenths_less: "us < 1000000 \<Longrightarrow> us div 100000 < (10::nat)"
  by (rule less_mult_imp_div_less) simp

lemma tenths_exact: "us mod 100000 = 0 \<Longrightarrow> us div 100000 * 100000 = (us::nat)"
  using div_mult_mod_eq [of us 100000] by simp

lemma tens_digit: "n < 100 \<Longrightarrow> n div 10 < (10::nat)"
  by (rule less_mult_imp_div_less) simp

lemma pad2_digits: "n < 100 \<Longrightarrow> pad2 n = [digit_char (n div 10), digit_char (n mod 10)]"
  using tens_digit [of n] by (simp add: pad2_def)

lemma split_digits: "(n::nat) = 10 * (n div 10) + n mod 10"
  by simp

lemma sixty_lin: "n = 10 * a + b \<Longrightarrow> n < 60 \<Longrightarrow> a \<le> (5::nat)"
  by arith

lemma hour_lin:
  "n = 10 * a + b \<Longrightarrow> b < 10 \<Longrightarrow> n < 24 \<Longrightarrow> (a = 2 \<and> b \<le> 3) \<or> (a \<le> 1 \<and> b < (10::nat))"
  by arith

lemma day_lin:
  "n = 10 * a + b \<Longrightarrow> b < 10 \<Longrightarrow> 1 \<le> n \<Longrightarrow> n \<le> 31 \<Longrightarrow>
   (a = 3 \<and> b \<le> 1) \<or> (1 \<le> a \<and> a \<le> 2 \<and> b < 10) \<or> (a = 0 \<and> 1 \<le> b \<and> b < (10::nat))"
  by arith

lemma month_lin:
  "n = 10 * a + b \<Longrightarrow> b < 10 \<Longrightarrow> 1 \<le> n \<Longrightarrow> n \<le> 12 \<Longrightarrow>
   (a = 1 \<and> b \<le> 2) \<or> (a = 0 \<and> 1 \<le> b \<and> b < (10::nat))"
  by arith

lemma int_of_pad2: "n < 100 \<Longrightarrow> int_of_digits (pad2 n) = n"
  using tens_digit [of n] by (simp add: int_of_digits_def pad2_digits digit_val_digit)

lemma year_digits:
  assumes "n < (10000::nat)"
  shows "10 * (10 * (10 * (n div 1000 mod 10) + n div 100 mod 10) + n div 10 mod 10) + n mod 10 = n"
proof -
  have a: "n div 1000 < 10"
    using assms by (intro less_mult_imp_div_less) simp
  have b: "n div 100 = 10 * (n div 1000) + n div 100 mod 10"
    using split_digits [of "n div 100"] by (simp add: div_mult2_eq [symmetric])
  have c: "n div 10 = 10 * (n div 100) + n div 10 mod 10"
    using split_digits [of "n div 10"] by (simp add: div_mult2_eq [symmetric])
  have d: "n = 10 * (n div 10) + n mod 10"
    by simp
  show ?thesis
    using a b c d by simp
qed

lemma int_of_pad4: "n < 10000 \<Longrightarrow> int_of_digits (pad4 n) = n"
  using year_digits [of n] by (simp add: int_of_digits_def pad4_def digit_val_digit)

lemma int_of_fraction:
  "f < 10 \<Longrightarrow> int_of_digits (take 6 ([digit_char f] @ ''000000'')) = f * 100000"
  by (simp add: int_of_digits_def digit_val_digit) (simp add: digit_val_def)

lemma days_in_month_le: "days_in_month y m \<le> 31"
  by (simp add: days_in_month_def)

lemma token_groups:
  assumes "valid_instant dt"
  shows "match_groups strptime_regex (timestamp_token dt)
         = Some [pad4 (year dt), pad2 (month dt), pad2 (day dt), pad2 (hour dt),
                 pad2 (minute dt), pad2 (second dt), [digit_char (microsecond dt div 100000)]]"
proof -
  define f where "f = microsecond dt div 100000"
  have v: "year dt < 10000" "1 \<le> month dt" "month dt \<le> 12" "1 \<le> day dt"
    "day dt \<le> days_in_month (year dt) (month dt)" "hour dt < 24" "minute dt < 60"
    "second dt < 60" "microsecond dt < 1000000"
    using assms by (simp_all add: valid_instant_def)
  have d31: "day dt \<le> 31"
    using v(5) days_in_month_le [of "year dt" "month dt"] by simp
  have lt: "month dt < 100" "day dt < 100" "hour dt < 100" "minute dt < 100" "second dt < 100"
    using v d31 by simp_all
  have f: "f < 10"
    unfolding f_def using v(9) by (rule tenths_less)
  have g7: "match_groups [re_f] [digit_char f] = Some [[digit_char f]]"
    using alts_f [OF f] by simp
  have g6: "match_groups [re_S, re_f] (pad2 (second dt) @ [digit_char f])
            = Some [pad2 (second dt), [digit_char f]]"
    using alts_S [OF sixty_lin [OF split_digits v(8)] _ g7, of "second dt mod 10"]
    by (simp add: pad2_digits lt)
  have g5: "match_groups [re_M, re_S, re_f] (pad2 (minute dt) @ pad2 (second dt) @ [digit_char f])
            = Some [pad2 (minute dt), pad2 (second dt), [digit_char f]]"
    using alts_M [OF sixty_lin [OF split_digits v(7)] _ g6, of "minute dt mod 10"]
    by (simp add: pad2_digits lt)
  have g4: "match_groups [re_H, re_M, re_S, re_f]
              (pad2 (hour dt) @ pad2 (minute dt) @ pad2 (second dt) @ [digit_char f])
            = Some [pad2 (hour dt), pad2 (minute dt), pad2 (second dt), [digit_char f]]"
    using alts_H [OF hour_lin [OF split_digits _ v(6)] g5] by (simp add: pad2_digits lt)
  have g3: "match_groups [re_d, re_H, re_M, re_S, re_f]
              (pad2 (day dt) @ pad2 (hour dt) @ pad2 (minute dt) @ pad2 (second dt)
               @ [digit_char f])
            = Some [pad2 (day dt), pad2 (hour dt), pad2 (minute dt), pad2 (second dt),
                    [digit_char f]]"
    using alts_d [OF day_lin [OF split_digits _ v(4) d31] g4] by (simp add: pad2_digits lt)
  have g2: "match_groups [re_m, re_d, re_H, re_M, re_S, re_f]
              (pad2 (month dt) @ pad2 (day dt) @ pad2 (hour dt) @ pad2 (minute dt)
               @ pad2 (second dt) @ [digit_char f])
            = Some [pad2 (month dt), pad2 (day dt), pad2 (hour dt), pad2 (minute dt),
                    pad2 (second dt), [digit_char f]]"
    using alts_m [OF month_lin [OF split_digits _ v(2) v(3)] g3] by (simp add: pad2_digits lt)
  have g1: "match_groups [re_Y, re_m, re_d, re_H, re_M, re_S, re_f]
              (pad4 (year dt) @ pad2 (month dt) @ pad2 (day dt) @ pad2 (hour dt)
               @ pad2 (minute dt) @ pad2 (second dt) @ [digit_char f])
            = Some [pad4 (year dt), pad2 (month dt), pad2 (day dt), pad2 (hour dt),
                    pad2 (minute dt), pad2 (second dt), [digit_char f]]"
    using alts_Y [OF _ _ _ _ g2, of "year dt div 1000 mod 10" "year dt div 100 mod 10"
        "year dt div 10 mod 10" "year dt mod 10"]
    by (simp add: pad4_def)
  show ?thesis
    using g1 by (simp add: strptime_regex_def timestamp_token_def f_def)
qed

lemma strptime_token:
  assumes "valid_instant dt"
  shows "strptime (timestamp_token dt) = Inr dt"
proof -
  have v: "1 \<le> year dt" "year dt < 10000" "month dt \<le> 12"
    "day dt \<le> days_in_month (year dt) (month dt)" "hour dt < 24" "minute dt < 60"
    "second dt < 60" "microsecond dt < 1000000" "microsecond dt mod 100000 = 0"
    using assms by (simp_all add: valid_instant_def)
  have d31: "day dt \<le> 31"
    using v(4) days_in_month_le [of "year dt" "month dt"] by simp
  have lt: "month dt < 100" "day dt < 100" "hour dt < 100" "minute dt < 100" "second dt < 100"
    using v d31 by simp_all
  have len: "length (concat [pad4 (year dt), pad2 (month dt), pad2 (day dt), pad2 (hour dt),
                 pad2 (minute dt), pad2 (second dt), [digit_char (microsecond dt div 100000)]])
             = length (timestamp_token dt)"
    by (simp add: timestamp_token_def)
  have us: "int_of_digits (take 6 ([digit_char (microsecond dt div 100000)] @ ''000000''))
            = microsecond dt"
    using int_of_fraction [OF tenths_less [OF v(8)]] tenths_exact [OF v(9)] by simp
  have "strptime (timestamp_token dt)
        = Inr \<lparr>year = year dt, month = month dt, day = day dt, hour = hour dt,
               minute = minute dt, second = second dt, microsecond = microsecond dt\<rparr>"
    unfolding strptime_def token_groups [OF assms]
    using v lt len us by (simp add: int_of_pad2 int_of_pad4 del: concat.simps)
  then show ?thesis by simp
qed

lemma digit_not_underscore: "a < 10 \<Longrightarrow> digit_char a \<noteq> CHR ''_''"
  using of_char_digit [of a] by auto

text \<open>\<open>re.search\<close> passes over a prefix in which no match starts.\<close>

lemma re_search_skip:
  "(\<forall>i<length pre. \<not> match_here p (drop i (pre @ s))) \<Longrightarrow>
   re_search p (pre @ s) = re_search p s"
proof (induction pre)
  case Nil
  then show ?case by simp
next
  case (Cons c pre)
  have "\<not> match_here p (c # pre @ s)"
    using Cons.prems by auto
  moreover have "\<forall>i<length pre. \<not> match_here p (drop i (pre @ s))"
    using Cons.prems by force
  ultimately show ?case
    using Cons.IH by simp
qed

lemma re_search_none:
  "(\<forall>i\<le>length s. \<not> match_here p (drop i s)) \<Longrightarrow> re_search p s = None"
proof (induction s)
  case Nil
  then show ?case by simp
next
  case (Cons c s)
  have "\<not> match_here p (c # s)"
    using Cons.prems by force
  moreover have "\<forall>i\<le>length s. \<not> match_here p (drop i s)"
    using Cons.prems by force
  ultimately show ?case
    using Cons.IH by simp
qed

lemma token_matches:
  assumes "microsecond dt < 1000000"
  shows "match_here datetime_exp (''_'' @ timestamp_token dt @ ''_'' @ post)"
  using tenths_less [OF assms]
  by (simp add: datetime_exp_def timestamp_token_def pad4_def pad2_def isdigit_digit lit_def)

lemma token_found:
  assumes "microsecond dt < 1000000"
  shows "re_search datetime_exp (''_'' @ timestamp_token dt @ ''_'' @ post)
         = Some (''_'' @ timestamp_token dt @ ''_'')"
proof -
  have "length (timestamp_token dt) = 15"
    by (simp add: timestamp_token_def pad4_def pad2_def)
  moreover have "length datetime_exp = 17"
    by (simp add: datetime_exp_def)
  ultimately show ?thesis
    using token_matches [OF assms, of post] by simp
qed

lemma token_stripped:
  assumes "microsecond dt < 1000000"
  shows "strip_us (''_'' @ timestamp_token dt @ ''_'') = timestamp_token dt"
  using tenths_less [OF assms]
  by (simp add: strip_us_def timestamp_token_def pad4_def pad2_def digit_not_underscore)

lemma getDateTime_leftmost:
  assumes "valid_instant dt"
    and "basename scene = pre @ ''_'' @ timestamp_token dt @ ''_'' @ post"
    and "\<forall>i<length pre. \<not> token_at (basename scene) i"
  shows "getDateTime scene = Inr (Some dt)"
proof -
  have us: "microsecond dt < 1000000"
    using assms(1) by (simp add: valid_instant_def)
  have "re_search datetime_exp (basename scene)
        = re_search datetime_exp (''_'' @ timestamp_token dt @ ''_'' @ post)"
    using assms(3) unfolding assms(2) token_at_def by (rule re_search_skip)
  then show ?thesis
    by (simp add: getDateTime_def token_found [OF us] token_stripped [OF us]
        strptime_token [OF assms(1)] del: append.simps)
qed

lemma getDateTime_absent:
  assumes "\<forall>i\<le>length (basename scene). \<not> token_at (basename scene) i"
  shows "getDateTime scene = Inr None"
  using re_search_none [of "basename scene" datetime_exp] assms
  by (simp add: getDateTime_def token_at_def)

lemma sample_instant_valid: "valid_instant sample_instant"
  by (simp add: valid_instant_def sample_instant_def days_in_month_def is_leap_def)

lemma sample_instant_token: "timestamp_token sample_instant = ''202001011230451''"
  by (simp add: timestamp_token_def sample_instant_def pad4_def pad2_def digit_char_def)

lemma two_token_basename:
  "basename two_token_scene
   = ''A_000000000000000_B'' @ ''_'' @ timestamp_token sample_instant @ ''_'' @ ''C.zip''"
  by (simp add: sample_instant_token two_token_scene_def path_simps)

lemma two_token_search:
  "re_search datetime_exp (basename two_token_scene) = Some ''_000000000000000_''"
  by (simp add: two_token_scene_def datetime_exp_def path_simps class_simps)

lemma zero_token_rejected: "strptime ''000000000000000'' = Inl ValueError"
  by (simp add: strptime_simps)

text \<open>
  Claim C5, as stated, fails for a name that holds a valid token after another
  underscore-delimited run of 15 digits: \<open>re.search\<close> takes the leftmost run, here
  \<open>000000000000000\<close>, which is no instant (there is no month 00), and \<open>strptime\<close>
  raises \<open>ValueError\<close>; the valid token further right is never looked at.
\<close>

theorem leftmost_token_counterexample:
  "valid_instant sample_instant
   \<and> basename two_token_scene
       = ''A_000000000000000_B'' @ ''_'' @ timestamp_token sample_instant @ ''_'' @ ''C.zip''
   \<and> getDateTime two_token_scene = Inl ValueError"
proof -
  have "getDateTime two_token_scene = Inl ValueError"
    by (simp add: getDateTime_def two_token_search strip_us_def zero_token_rejected)
  then show ?thesis
    using sample_instant_valid two_token_basename by simp
qed

text \<open>
  Claim C5, amended.  When the leftmost underscore-delimited run of 15 digits in the
  basename of the scene is the token \<open>YYYYMMDDHHMMSSf\<close> of a valid instant (no such run
  starts in the text \<open>pre\<close> before it), \<open>getDateTime\<close> returns exactly that instant,
  the tenths of a second as \<open>f * 100000\<close> microseconds, whatever the texts \<open>pre\<close>
  and \<open>post\<close> around it.  When no underscore-delimited run of 15 digits starts
  anywhere in the basename, it returns \<open>None\<close>.
\<close>

theorem leftmost_token_parsed:
  "(valid_instant dt \<and> basename scene = pre @ ''_'' @ timestamp_token dt @ ''_'' @ post
      \<and> (\<forall>i<length pre. \<not> token_at (basename scene) i)
      \<longrightarrow> getDateTime scene = Inr (Some dt))
   \<and> ((\<forall>i\<le>length (basename scene). \<not> token_at (basename scene) i)
      \<longrightarrow> getDateTime scene = Inr None)"
  using getDateTime_leftmost [of dt scene pre post] getDateTime_absent [of scene] by blast

lemma all_less_list: "(\<forall>i<n. P i) = list_all P [0..<n]"
  by (auto simp: list_all_iff)

lemma sample_prefix_clear:
  "\<forall>i<length ''DS_PHR1A''. \<not> token_at (basename pleiades_scene) i"
  by (simp add: all_less_list upt_rec_numeral token_at_def pleiades_scene_def path_simps
      datetime_exp_def class_simps)

lemma sample_basename:
  "basename pleiades_scene = ''DS_PHR1A'' @ ''_'' @ timestamp_token sample_instant @ ''_'' @ ''X.zip''"
  by (simp add: sample_instant_token pleiades_scene_def path_simps)

theorem leftmost_token_parsed_witness:
  "getDateTime ''t/DS_PHR1A_202001011230451_X.zip''
   = Inr (Some \<lparr>year = 2020, month = 1, day = 1, hour = 12, minute = 30, second = 45,
                 microsecond = 100000\<rparr>)"
  using leftmost_token_parsed [of sample_instant pleiades_scene "''DS_PHR1A''" "''X.zip''"]
    sample_instant_valid sample_basename sample_prefix_clear
  by (simp add: pleiades_scene_def sample_instant_def del: append.simps)

end
